theory Spec2Isabelle
  imports Main
begin

section \<open>Decoded JSON values, typed values and Python exceptions\<close>

text \<open>
  The library receives what \<^verbatim>\<open>json\<close> decoding produces: \<^verbatim>\<open>None\<close>, \<^verbatim>\<open>bool\<close>,
  \<^verbatim>\<open>int\<close>, \<^verbatim>\<open>float\<close>, \<^verbatim>\<open>str\<close>, \<^verbatim>\<open>list\<close> and \<^verbatim>\<open>dict\<close> objects.
  A Python float is a binary fraction \<open>m * 2 ^ e\<close>, an infinity or a NaN; only the exact
  operations on it (truncation, comparison with an integer, truth value) are modelled,
  and the sign of a zero, which none of them reads, is dropped.
  Strings are ASCII text: a \<^typ>\<open>char\<close> is one Python character.
\<close>

datatype pyfloat = Finite int int | PosInf | NegInf | NaN

datatype raw =
    JNull
  | JBool bool
  | JInt int
  | JFloat pyfloat
  | JStr string
  | JList "raw list"
  | JDict "(string \<times> raw) list"


datatype py_error =
    InvalidLiteral string  \<comment> \<open>ValueError: invalid literal for int() with base 10\<close>
  | ExceedsDigitLimit  \<comment> \<open>ValueError: exceeds the limit (4300 digits) for integer string conversion\<close>
  | FloatNaNToInt  \<comment> \<open>ValueError: cannot convert float NaN to integer\<close>
  | FloatInfinityToInt  \<comment> \<open>OverflowError: cannot convert float infinity to integer\<close>
  | IntArgument raw  \<comment> \<open>TypeError: int() argument must be a string, a bytes-like object or a real number\<close>
  | NotAValidMember raw string  \<comment> \<open>ValueError: (value) is not a valid (enum class)\<close>
  | NotIterable raw  \<comment> \<open>TypeError: object is not iterable\<close>
  | StrptimeArgument raw  \<comment> \<open>TypeError: strptime() argument 1 must be str\<close>
  | TimeDataMismatch string string  \<comment> \<open>ValueError: time data (string) does not match format (format)\<close>
  | UnconvertedData string  \<comment> \<open>ValueError: unconverted data remains\<close>
  | DateOutOfRange  \<comment> \<open>ValueError: year, day or second out of range\<close>
  | BadDirective char string  \<comment> \<open>ValueError: (directive) is a bad directive in format (format)\<close>
  | NoAttribute string string  \<comment> \<open>AttributeError: (type) object has no attribute (name)\<close>
  | NameNotDefined string  \<comment> \<open>NameError: name (name) is not defined\<close>
  | CannotImportName string string  \<comment> \<open>ImportError: cannot import name (name) from (module)\<close>
  | StrReturnedNonString  \<comment> \<open>TypeError: __str__ returned non-string\<close>
  | ModelArgument raw  \<comment> \<open>construction from something that is not a JSON object\<close>
  | MissingField string  \<comment> \<open>construction: the raw object lacks the field's source key\<close>
  | FieldError string py_error  \<comment> \<open>construction: the field's converter failed with the error\<close>


section \<open>The enumerations of model.py\<close>

text \<open>
  Each \<^verbatim>\<open>Enum\<close> class is a datatype whose constructors are the members, written
  \<open>Class_member\<close>, with the member's \<^verbatim>\<open>value\<close> and \<^verbatim>\<open>name\<close> and the members in
  definition order.
\<close>

datatype OsuMode = OsuMode_osu | OsuMode_taiko | OsuMode_ctb | OsuMode_mania

fun OsuMode_value :: "OsuMode \<Rightarrow> int" where
  "OsuMode_value OsuMode_osu = 0"
| "OsuMode_value OsuMode_taiko = 1"
| "OsuMode_value OsuMode_ctb = 2"
| "OsuMode_value OsuMode_mania = 3"

fun OsuMode_name :: "OsuMode \<Rightarrow> string" where
  "OsuMode_name OsuMode_osu = ''osu''"
| "OsuMode_name OsuMode_taiko = ''taiko''"
| "OsuMode_name OsuMode_ctb = ''ctb''"
| "OsuMode_name OsuMode_mania = ''mania''"

definition OsuMode_members :: "OsuMode list" where
  "OsuMode_members = [OsuMode_osu, OsuMode_taiko, OsuMode_ctb, OsuMode_mania]"

datatype BeatmapStatus =
    BeatmapStatus_graveyard
  | BeatmapStatus_wip
  | BeatmapStatus_pending
  | BeatmapStatus_ranked
  | BeatmapStatus_approved
  | BeatmapStatus_qualified

fun BeatmapStatus_value :: "BeatmapStatus \<Rightarrow> int" where
  "BeatmapStatus_value BeatmapStatus_graveyard = - 2"
| "BeatmapStatus_value BeatmapStatus_wip = - 1"
| "BeatmapStatus_value BeatmapStatus_pending = 0"
| "BeatmapStatus_value BeatmapStatus_ranked = 1"
| "BeatmapStatus_value BeatmapStatus_approved = 2"
| "BeatmapStatus_value BeatmapStatus_qualified = 3"

fun BeatmapStatus_name :: "BeatmapStatus \<Rightarrow> string" where
  "BeatmapStatus_name BeatmapStatus_graveyard = ''graveyard''"
| "BeatmapStatus_name BeatmapStatus_wip = ''wip''"
| "BeatmapStatus_name BeatmapStatus_pending = ''pending''"
| "BeatmapStatus_name BeatmapStatus_ranked = ''ranked''"
| "BeatmapStatus_name BeatmapStatus_approved = ''approved''"
| "BeatmapStatus_name BeatmapStatus_qualified = ''qualified''"

definition BeatmapStatus_members :: "BeatmapStatus list" where
  "BeatmapStatus_members =
     [BeatmapStatus_graveyard, BeatmapStatus_wip, BeatmapStatus_pending,
      BeatmapStatus_ranked, BeatmapStatus_approved, BeatmapStatus_qualified]"

datatype BeatmapGenre =
    BeatmapGenre_any
  | BeatmapGenre_unspecified
  | BeatmapGenre_video_game
  | BeatmapGenre_anime
  | BeatmapGenre_rock
  | BeatmapGenre_pop
  | BeatmapGenre_other
  | BeatmapGenre_novelty
  | BeatmapGenre_hip_hop
  | BeatmapGenre_electronic

fun BeatmapGenre_value :: "BeatmapGenre \<Rightarrow> int" where
  "BeatmapGenre_value BeatmapGenre_any = 0"
| "BeatmapGenre_value BeatmapGenre_unspecified = 1"
| "BeatmapGenre_value BeatmapGenre_video_game = 2"
| "BeatmapGenre_value BeatmapGenre_anime = 3"
| "BeatmapGenre_value BeatmapGenre_rock = 4"
| "BeatmapGenre_value BeatmapGenre_pop = 5"
| "BeatmapGenre_value BeatmapGenre_other = 6"
| "BeatmapGenre_value BeatmapGenre_novelty = 7"
| "BeatmapGenre_value BeatmapGenre_hip_hop = 9"
| "BeatmapGenre_value BeatmapGenre_electronic = 10"

fun BeatmapGenre_name :: "BeatmapGenre \<Rightarrow> string" where
  "BeatmapGenre_name BeatmapGenre_any = ''any''"
| "BeatmapGenre_name BeatmapGenre_unspecified = ''unspecified''"
| "BeatmapGenre_name BeatmapGenre_video_game = ''video_game''"
| "BeatmapGenre_name BeatmapGenre_anime = ''anime''"
| "BeatmapGenre_name BeatmapGenre_rock = ''rock''"
| "BeatmapGenre_name BeatmapGenre_pop = ''pop''"
| "BeatmapGenre_name BeatmapGenre_other = ''other''"
| "BeatmapGenre_name BeatmapGenre_novelty = ''novelty''"
| "BeatmapGenre_name BeatmapGenre_hip_hop = ''hip_hop''"
| "BeatmapGenre_name BeatmapGenre_electronic = ''electronic''"

definition BeatmapGenre_members :: "BeatmapGenre list" where
  "BeatmapGenre_members =
     [BeatmapGenre_any, BeatmapGenre_unspecified, BeatmapGenre_video_game,
      BeatmapGenre_anime, BeatmapGenre_rock, BeatmapGenre_pop, BeatmapGenre_other,
      BeatmapGenre_novelty, BeatmapGenre_hip_hop, BeatmapGenre_electronic]"

datatype BeatmapLanguage =
    BeatmapLanguage_any
  | BeatmapLanguage_other
  | BeatmapLanguage_english
  | BeatmapLanguage_japanese
  | BeatmapLanguage_chinese
  | BeatmapLanguage_instrumental
  | BeatmapLanguage_korean
  | BeatmapLanguage_french
  | BeatmapLanguage_german
  | BeatmapLanguage_swedish
  | BeatmapLanguage_spanish
  | BeatmapLanguage_italian

fun BeatmapLanguage_value :: "BeatmapLanguage \<Rightarrow> int" where
  "BeatmapLanguage_value BeatmapLanguage_any = 0"
| "BeatmapLanguage_value BeatmapLanguage_other = 1"
| "BeatmapLanguage_value BeatmapLanguage_english = 2"
| "BeatmapLanguage_value BeatmapLanguage_japanese = 3"
| "BeatmapLanguage_value BeatmapLanguage_chinese = 4"
| "BeatmapLanguage_value BeatmapLanguage_instrumental = 5"
| "BeatmapLanguage_value BeatmapLanguage_korean = 6"
| "BeatmapLanguage_value BeatmapLanguage_french = 7"
| "BeatmapLanguage_value BeatmapLanguage_german = 8"
| "BeatmapLanguage_value BeatmapLanguage_swedish = 9"
| "BeatmapLanguage_value BeatmapLanguage_spanish = 10"
| "BeatmapLanguage_value BeatmapLanguage_italian = 11"

fun BeatmapLanguage_name :: "BeatmapLanguage \<Rightarrow> string" where
  "BeatmapLanguage_name BeatmapLanguage_any = ''any''"
| "BeatmapLanguage_name BeatmapLanguage_other = ''other''"
| "BeatmapLanguage_name BeatmapLanguage_english = ''english''"
| "BeatmapLanguage_name BeatmapLanguage_japanese = ''japanese''"
| "BeatmapLanguage_name BeatmapLanguage_chinese = ''chinese''"
| "BeatmapLanguage_name BeatmapLanguage_instrumental = ''instrumental''"
| "BeatmapLanguage_name BeatmapLanguage_korean = ''korean''"
| "BeatmapLanguage_name BeatmapLanguage_french = ''french''"
| "BeatmapLanguage_name BeatmapLanguage_german = ''german''"
| "BeatmapLanguage_name BeatmapLanguage_swedish = ''swedish''"
| "BeatmapLanguage_name BeatmapLanguage_spanish = ''spanish''"
| "BeatmapLanguage_name BeatmapLanguage_italian = ''italian''"

definition BeatmapLanguage_members :: "BeatmapLanguage list" where
  "BeatmapLanguage_members =
     [BeatmapLanguage_any, BeatmapLanguage_other, BeatmapLanguage_english,
      BeatmapLanguage_japanese, BeatmapLanguage_chinese, BeatmapLanguage_instrumental,
      BeatmapLanguage_korean, BeatmapLanguage_french, BeatmapLanguage_german,
      BeatmapLanguage_swedish, BeatmapLanguage_spanish, BeatmapLanguage_italian]"

text \<open>
  The value of a \<^verbatim>\<open>datetime\<close> object and the typed values a converter returns.
\<close>

record datetime =
  year :: int
  month :: int
  day :: int
  hour :: int
  minute :: int
  second :: int
  microsecond :: int

datatype pyval =
    PNone
  | PBool bool
  | PInt int
  | PFloat pyfloat
  | PStr string
  | PDate datetime
  | POsuMode OsuMode
  | PBeatmapStatus BeatmapStatus
  | PBeatmapGenre BeatmapGenre
  | PBeatmapLanguage BeatmapLanguage
  | PList "pyval list"
  | PInstance "(string \<times> pyval) list"

type_synonym converter = "raw \<Rightarrow> py_error + pyval"

subsection \<open>Calling an enumeration class\<close>

text \<open>
  \<^verbatim>\<open>EnumT(value)\<close> returns the member whose value equals \<^verbatim>\<open>value\<close> under
  Python's \<^verbatim>\<open>==\<close>, and raises ValueError when there is none. Against an integer,
  \<^verbatim>\<open>True == 1\<close>, \<^verbatim>\<open>False == 0\<close>, a float is equal when it is that whole number, and
  no string, list, dict or \<^verbatim>\<open>None\<close> is equal.
\<close>

fun float_is_whole :: "pyfloat \<Rightarrow> bool" where
  "float_is_whole (Finite m e) = (0 \<le> e \<or> \<bar>m\<bar> mod 2 ^ nat (- e) = 0)"
| "float_is_whole PosInf = False"
| "float_is_whole NegInf = False"
| "float_is_whole NaN = False"

fun float_trunc :: "pyfloat \<Rightarrow> int" where
  "float_trunc (Finite m e) =
     (if 0 \<le> e then m * 2 ^ nat e else sgn m * (\<bar>m\<bar> div 2 ^ nat (- e)))"
| "float_trunc PosInf = 0"
| "float_trunc NegInf = 0"
| "float_trunc NaN = 0"

fun raw_eq_int :: "raw \<Rightarrow> int \<Rightarrow> bool" where
  "raw_eq_int (JInt n) k = (n = k)"
| "raw_eq_int (JBool b) k = ((if b then 1 else 0) = k)"
| "raw_eq_int (JFloat f) k = (float_is_whole f \<and> float_trunc f = k)"
| "raw_eq_int JNull k = False"
| "raw_eq_int (JStr s) k = False"
| "raw_eq_int (JList xs) k = False"
| "raw_eq_int (JDict kvs) k = False"

definition Enum_call ::
  "string \<Rightarrow> 'a list \<Rightarrow> ('a \<Rightarrow> int) \<Rightarrow> ('a \<Rightarrow> pyval) \<Rightarrow> converter" where
  "Enum_call cls members val wrap v =
     (case find (\<lambda>m. raw_eq_int v (val m)) members of
        Some m \<Rightarrow> Inr (wrap m)
      | None \<Rightarrow> Inl (NotAValidMember v cls))"

definition OsuMode_call :: converter where
  "OsuMode_call = Enum_call ''OsuMode'' OsuMode_members OsuMode_value POsuMode"

definition BeatmapStatus_call :: converter where
  "BeatmapStatus_call =
     Enum_call ''BeatmapStatus'' BeatmapStatus_members BeatmapStatus_value PBeatmapStatus"

definition BeatmapGenre_call :: converter where
  "BeatmapGenre_call =
     Enum_call ''BeatmapGenre'' BeatmapGenre_members BeatmapGenre_value PBeatmapGenre"

definition BeatmapLanguage_call :: converter where
  "BeatmapLanguage_call =
     Enum_call ''BeatmapLanguage'' BeatmapLanguage_members BeatmapLanguage_value
       PBeatmapLanguage"

section \<open>The built-in conversions \<^verbatim>\<open>int\<close> and \<^verbatim>\<open>bool\<close>\<close>

text \<open>
  \<^verbatim>\<open>int(x)\<close>: an int is itself, a bool is 0 or 1, a float is truncated towards zero
  (NaN and the infinities raise), a string is stripped of surrounding whitespace and read
  as an optional sign and decimal digits, where single underscores may separate digits;
  anything else is a TypeError. CPython refuses a string of more than 4300 digits.
  The whitespace \<^verbatim>\<open>int\<close> strips from an ASCII string is the space and the characters
  9 to 13 (tab, line feed, vertical tab, form feed, carriage return).
\<close>

definition is_ascii_space :: "char \<Rightarrow> bool" where
  "is_ascii_space c = (let n = (of_char c :: nat) in n = 32 \<or> (9 \<le> n \<and> n \<le> 13))"

definition is_digit :: "char \<Rightarrow> bool" where
  "is_digit c = (let n = (of_char c :: nat) in 48 \<le> n \<and> n \<le> 57)"

definition digit_val :: "char \<Rightarrow> nat" where
  "digit_val c = of_char c - 48"

definition strip :: "string \<Rightarrow> string" where
  "strip s = rev (dropWhile is_ascii_space (rev (dropWhile is_ascii_space s)))"

fun literal_digits :: "string \<Rightarrow> nat list option" where
  "literal_digits [] = None"
| "literal_digits [c] = (if is_digit c then Some [digit_val c] else None)"
| "literal_digits (c # c' # cs) =
     (if \<not> is_digit c then None
      else if c' = CHR ''_'' then map_option (Cons (digit_val c)) (literal_digits cs)
      else map_option (Cons (digit_val c)) (literal_digits (c' # cs)))"

definition digits_value :: "nat list \<Rightarrow> int" where
  "digits_value ds = foldl (\<lambda>a d. 10 * a + int d) 0 ds"

definition int_max_str_digits :: nat where
  "int_max_str_digits = 4300"

definition int_of_str :: "string \<Rightarrow> py_error + int" where
  "int_of_str s =
     (let t = strip s;
          negative = (case t of c # _ \<Rightarrow> c = CHR ''-'' | [] \<Rightarrow> False);
          body = (case t of c # r \<Rightarrow> if c = CHR ''-'' \<or> c = CHR ''+'' then r else t | [] \<Rightarrow> t)
      in case literal_digits body of
           None \<Rightarrow> Inl (InvalidLiteral s)
         | Some ds \<Rightarrow>
             if int_max_str_digits < length ds then Inl ExceedsDigitLimit
             else Inr (if negative then - digits_value ds else digits_value ds))"

fun py_int :: "raw \<Rightarrow> py_error + int" where
  "py_int (JInt n) = Inr n"
| "py_int (JBool b) = Inr (if b then 1 else 0)"
| "py_int (JFloat (Finite m e)) = Inr (float_trunc (Finite m e))"
| "py_int (JFloat PosInf) = Inl FloatInfinityToInt"
| "py_int (JFloat NegInf) = Inl FloatInfinityToInt"
| "py_int (JFloat NaN) = Inl FloatNaNToInt"
| "py_int (JStr s) = int_of_str s"
| "py_int JNull = Inl (IntArgument JNull)"
| "py_int (JList xs) = Inl (IntArgument (JList xs))"
| "py_int (JDict kvs) = Inl (IntArgument (JDict kvs))"

definition int_conv :: converter where
  "int_conv v = map_sum id PInt (py_int v)"

text \<open>\<^verbatim>\<open>bool(x)\<close> is the truth value of \<^verbatim>\<open>x\<close>; it never raises.\<close>

fun py_bool :: "raw \<Rightarrow> bool" where
  "py_bool JNull = False"
| "py_bool (JBool b) = b"
| "py_bool (JInt n) = (n \<noteq> 0)"
| "py_bool (JFloat (Finite m e)) = (m \<noteq> 0)"
| "py_bool (JFloat PosInf) = True"
| "py_bool (JFloat NegInf) = True"
| "py_bool (JFloat NaN) = True"
| "py_bool (JStr s) = (s \<noteq> [])"
| "py_bool (JList xs) = (xs \<noteq> [])"
| "py_bool (JDict kvs) = (kvs \<noteq> [])"

definition bool_conv :: converter where
  "bool_conv v = Inr (PBool (py_bool v))"

section \<open>The converter generators of model.py\<close>

text \<open>
  \<^verbatim>\<open>
  def JsonList(oftype):
      def _(lst):
          return [oftype(entry) for entry in lst]
      return _
  \<close>
  The comprehension iterates over \<^verbatim>\<open>lst\<close>: the elements of a list, the characters of a
  string, the keys of a dict; any other decoded value is not iterable. It applies
  \<^verbatim>\<open>oftype\<close> to the entries in order and the first exception ends it.
\<close>

fun py_iter :: "raw \<Rightarrow> py_error + raw list" where
  "py_iter (JList xs) = Inr xs"
| "py_iter (JStr s) = Inr (map (\<lambda>c. JStr [c]) s)"
| "py_iter (JDict kvs) = Inr (map (\<lambda>kv. JStr (fst kv)) kvs)"
| "py_iter JNull = Inl (NotIterable JNull)"
| "py_iter (JBool b) = Inl (NotIterable (JBool b))"
| "py_iter (JInt n) = Inl (NotIterable (JInt n))"
| "py_iter (JFloat f) = Inl (NotIterable (JFloat f))"

fun convert_each :: "converter \<Rightarrow> raw list \<Rightarrow> py_error + pyval list" where
  "convert_each oftype [] = Inr []"
| "convert_each oftype (entry # rest) =
     (case oftype entry of
        Inl e \<Rightarrow> Inl e
      | Inr y \<Rightarrow>
          (case convert_each oftype rest of
             Inl e \<Rightarrow> Inl e
           | Inr ys \<Rightarrow> Inr (y # ys)))"

definition JsonList :: "converter \<Rightarrow> converter" where
  "JsonList oftype lst =
     (case py_iter lst of
        Inl e \<Rightarrow> Inl e
      | Inr entries \<Rightarrow> map_sum id PList (convert_each oftype entries))"

text \<open>
  \<^verbatim>\<open>
  def Nullable(oftype):
      def _(it):
          if it is None:
              return None
          else:
              return oftype(it)
      return _
  \<close>
\<close>

definition Nullable :: "converter \<Rightarrow> converter" where
  "Nullable oftype it = (if it = JNull then Inr PNone else oftype it)"

text \<open>
  \<^verbatim>\<open>
  def PreProcessInt(oftype):
      def _(it):
          return oftype(int(it))
      return _
  \<close>
\<close>

definition PreProcessInt :: "converter \<Rightarrow> converter" where
  "PreProcessInt oftype it =
     (case py_int it of
        Inl e \<Rightarrow> Inl e
      | Inr n \<Rightarrow> oftype (JInt n))"

section \<open>DateConverter: \<^verbatim>\<open>datetime.strptime\<close> and \<^verbatim>\<open>strftime\<close>\<close>

text \<open>
  \<^verbatim>\<open>strptime\<close> turns the format into a regular expression: a directive becomes a named
  group, a run of whitespace becomes \<^verbatim>\<open>\s+\<close>, any other character stands for itself.
  The groups of the six directives the library uses are
  \<^verbatim>\<open>
  %Y  \d\d\d\d
  %m  1[0-2]|0[1-9]|[1-9]
  %d  3[0-1]|[1-2]\d|0[1-9]|[1-9]| [1-9]
  %H  2[0-3]|[0-1]\d|\d
  %M  [0-5]\d|\d
  %S  6[0-1]|[0-5]\d|\d
  \<close>
  A matcher returns every way its expression matches a prefix of the string, as the pairs
  of the text matched and the text left, in the order in which a backtracking engine
  tries them: the alternatives from left to right, a repetition longest first.
\<close>

type_synonym matcher = "string \<Rightarrow> (string \<times> string) list"

text \<open>
  The characters \<^verbatim>\<open>\s\<close> matches in a string pattern: the space, the characters 9 to
  13 and the separators 28 to 31.
\<close>

definition is_space :: "char \<Rightarrow> bool" where
  "is_space c =
     (let n = (of_char c :: nat) in n = 32 \<or> (9 \<le> n \<and> n \<le> 13) \<or> (28 \<le> n \<and> n \<le> 31))"

definition in_range :: "char \<Rightarrow> char \<Rightarrow> char \<Rightarrow> bool" where
  "in_range lo hi c = ((of_char lo :: nat) \<le> of_char c \<and> (of_char c :: nat) \<le> of_char hi)"

definition re_class :: "(char \<Rightarrow> bool) \<Rightarrow> matcher" where
  "re_class P s = (case s of [] \<Rightarrow> [] | c # r \<Rightarrow> if P c then [([c], r)] else [])"

definition re_seq :: "matcher \<Rightarrow> matcher \<Rightarrow> matcher" where
  "re_seq A B s = concat (map (\<lambda>(a, r). map (\<lambda>(b, r'). (a @ b, r')) (B r)) (A s))"

definition re_alt :: "matcher \<Rightarrow> matcher \<Rightarrow> matcher" where
  "re_alt A B s = A s @ B s"

fun re_spaces :: matcher where
  "re_spaces [] = []"
| "re_spaces (c # r) =
     (if is_space c then map (\<lambda>(a, r'). (c # a, r')) (re_spaces r) @ [([c], r)] else [])"

definition re_digit :: matcher where
  "re_digit = re_class is_digit"

definition re_Y :: matcher where
  "re_Y = re_seq re_digit (re_seq re_digit (re_seq re_digit re_digit))"

definition re_m :: matcher where
  "re_m =
     re_alt (re_seq (re_class (\<lambda>c. c = CHR ''1'')) (re_class (in_range CHR ''0'' CHR ''2'')))
    (re_alt (re_seq (re_class (\<lambda>c. c = CHR ''0'')) (re_class (in_range CHR ''1'' CHR ''9'')))
            (re_class (in_range CHR ''1'' CHR ''9'')))"

definition re_d :: matcher where
  "re_d =
     re_alt (re_seq (re_class (\<lambda>c. c = CHR ''3'')) (re_class (in_range CHR ''0'' CHR ''1'')))
    (re_alt (re_seq (re_class (in_range CHR ''1'' CHR ''2'')) re_digit)
    (re_alt (re_seq (re_class (\<lambda>c. c = CHR ''0'')) (re_class (in_range CHR ''1'' CHR ''9'')))
    (re_alt (re_class (in_range CHR ''1'' CHR ''9''))
            (re_seq (re_class (\<lambda>c. c = CHR '' '')) (re_class (in_range CHR ''1'' CHR ''9''))))))"

definition re_H :: matcher where
  "re_H =
     re_alt (re_seq (re_class (\<lambda>c. c = CHR ''2'')) (re_class (in_range CHR ''0'' CHR ''3'')))
    (re_alt (re_seq (re_class (in_range CHR ''0'' CHR ''1'')) re_digit)
            re_digit)"

definition re_M :: matcher where
  "re_M = re_alt (re_seq (re_class (in_range CHR ''0'' CHR ''5'')) re_digit) re_digit"

definition re_S :: matcher where
  "re_S =
     re_alt (re_seq (re_class (\<lambda>c. c = CHR ''6'')) (re_class (in_range CHR ''0'' CHR ''1'')))
    (re_alt (re_seq (re_class (in_range CHR ''0'' CHR ''5'')) re_digit)
            re_digit)"

text \<open>
  The format as the sequence of its parts. Only the directives above are modelled; any
  other directive, and a \<^verbatim>\<open>%\<close> that ends the format, is reported as a bad directive.
  The literal characters of the library's format are not letters, so the expression's
  case-insensitivity does not show.
\<close>

datatype fmt_token = Directive char | Literal char | Whitespace

fun format_tokens :: "bool \<Rightarrow> string \<Rightarrow> fmt_token list" where
  "format_tokens in_space [] = []"
| "format_tokens in_space [c] =
     (if is_space c then (if in_space then [] else [Whitespace])
      else if c = CHR ''%'' then [Directive c]
      else [Literal c])"
| "format_tokens in_space (c # d # cs) =
     (if is_space c then
        (if in_space then format_tokens True (d # cs)
         else Whitespace # format_tokens True (d # cs))
      else if c = CHR ''%'' then Directive d # format_tokens False cs
      else Literal c # format_tokens False (d # cs))"

definition directive_regex :: "char \<Rightarrow> matcher option" where
  "directive_regex c =
     (if c = CHR ''Y'' then Some re_Y
      else if c = CHR ''m'' then Some re_m
      else if c = CHR ''d'' then Some re_d
      else if c = CHR ''H'' then Some re_H
      else if c = CHR ''M'' then Some re_M
      else if c = CHR ''S'' then Some re_S
      else None)"

fun bad_directive :: "fmt_token list \<Rightarrow> char option" where
  "bad_directive [] = None"
| "bad_directive (Directive c # ts) =
     (if directive_regex c = None then Some c else bad_directive ts)"
| "bad_directive (Literal c # ts) = bad_directive ts"
| "bad_directive (Whitespace # ts) = bad_directive ts"

fun match_token :: "fmt_token \<Rightarrow> matcher" where
  "match_token (Directive c) s = (case directive_regex c of Some re \<Rightarrow> re s | None \<Rightarrow> [])"
| "match_token (Literal c) s = re_class (\<lambda>x. x = c) s"
| "match_token Whitespace s = re_spaces s"

fun group_of :: "fmt_token \<Rightarrow> string \<Rightarrow> (char \<times> string) list" where
  "group_of (Directive c) a = [(c, a)]"
| "group_of (Literal c) a = []"
| "group_of Whitespace a = []"

text \<open>
  All matches of the whole expression at the start of the string, in the engine's order:
  the groups found and the text left over.
\<close>

fun match_tokens :: "fmt_token list \<Rightarrow> string \<Rightarrow> ((char \<times> string) list \<times> string) list" where
  "match_tokens [] s = [([], s)]"
| "match_tokens (t # ts) s =
     concat (map (\<lambda>(a, r). map (\<lambda>(found, r'). (group_of t a @ found, r')) (match_tokens ts r))
                 (match_token t s))"

definition is_leap :: "int \<Rightarrow> bool" where
  "is_leap y = (y mod 4 = 0 \<and> (y mod 100 \<noteq> 0 \<or> y mod 400 = 0))"

definition days_in_month :: "int \<Rightarrow> int \<Rightarrow> int" where
  "days_in_month y m =
     (if m = 2 then (if is_leap y then 29 else 28)
      else if m = 4 \<or> m = 6 \<or> m = 9 \<or> m = 11 then 30
      else 31)"

text \<open>
  The \<^verbatim>\<open>datetime\<close> constructor: it raises ValueError unless the year is 1..9999, the
  month 1..12, the day one of the month, the hour 0..23, the minute and the second 0..59.
\<close>

definition make_datetime :: "int \<Rightarrow> int \<Rightarrow> int \<Rightarrow> int \<Rightarrow> int \<Rightarrow> int \<Rightarrow> py_error + datetime" where
  "make_datetime y mo d h mi s =
     (if 1 \<le> y \<and> y \<le> 9999 \<and> 1 \<le> mo \<and> mo \<le> 12 \<and> 1 \<le> d \<and> d \<le> days_in_month y mo
         \<and> 0 \<le> h \<and> h \<le> 23 \<and> 0 \<le> mi \<and> mi \<le> 59 \<and> 0 \<le> s \<and> s \<le> 59
      then Inr \<lparr>year = y, month = mo, day = d, hour = h, minute = mi, second = s,
                microsecond = 0\<rparr>
      else Inl DateOutOfRange)"

definition py_bind :: "'e + 'a \<Rightarrow> ('a \<Rightarrow> 'e + 'b) \<Rightarrow> 'e + 'b" where
  "py_bind r f = (case r of Inl e \<Rightarrow> Inl e | Inr x \<Rightarrow> f x)"

definition found_int :: "(char \<times> string) list \<Rightarrow> char \<Rightarrow> int \<Rightarrow> py_error + int" where
  "found_int found c dflt = (case map_of found c of None \<Rightarrow> Inr dflt | Some g \<Rightarrow> int_of_str g)"

text \<open>
  \<^verbatim>\<open>strptime(data_string, format)\<close>: a TypeError unless the data is a string; the first
  match of the expression at the start of the string (none: ValueError); text left after
  it is a ValueError; each group is read with \<^verbatim>\<open>int\<close>, a field the format lacks has
  its default; the \<^verbatim>\<open>datetime\<close> is built from the six numbers.
\<close>

definition strptime :: "raw \<Rightarrow> string \<Rightarrow> py_error + datetime" where
  "strptime data_string fmt =
     (case data_string of
        JStr s \<Rightarrow>
          (let tokens = format_tokens False fmt in
           case bad_directive tokens of
             Some c \<Rightarrow> Inl (BadDirective c fmt)
           | None \<Rightarrow>
               (case match_tokens tokens s of
                  [] \<Rightarrow> Inl (TimeDataMismatch s fmt)
                | (found, rest) # _ \<Rightarrow>
                    if rest \<noteq> [] then Inl (UnconvertedData rest)
                    else
                      py_bind (found_int found CHR ''Y'' 1900) (\<lambda>y.
                      py_bind (found_int found CHR ''m'' 1) (\<lambda>mo.
                      py_bind (found_int found CHR ''d'' 1) (\<lambda>d.
                      py_bind (found_int found CHR ''H'' 0) (\<lambda>h.
                      py_bind (found_int found CHR ''M'' 0) (\<lambda>mi.
                      py_bind (found_int found CHR ''S'' 0) (\<lambda>s.
                        make_datetime y mo d h mi s))))))))
      | _ \<Rightarrow> Inl (StrptimeArgument data_string))"

text \<open>
  \<^verbatim>\<open>
  def DateConverter(val):
      return datetime.datetime.strptime(val, "%Y-%m-%d %H:%M:%S")
  \<close>
\<close>

definition DateConverter :: "raw \<Rightarrow> py_error + datetime" where
  "DateConverter val = strptime val ''%Y-%m-%d %H:%M:%S''"

definition date_conv :: converter where
  "date_conv val = map_sum id PDate (DateConverter val)"

text \<open>
  \<^verbatim>\<open>strftime\<close>, for the same six directives: the month, day, hour, minute and second in
  two digits; the year in decimal, which the C library pads to four digits on some
  platforms and not on others (\<open>pad_year\<close>). Any other character is copied. A directive
  outside the six is left as it stands.
\<close>

definition digit_char :: "int \<Rightarrow> char" where
  "digit_char n = char_of (48 + n mod 10)"

definition two_digits :: "int \<Rightarrow> string" where
  "two_digits n = [digit_char (n div 10), digit_char n]"

definition year_digits :: "bool \<Rightarrow> int \<Rightarrow> string" where
  "year_digits pad_year y =
     (let ds = [digit_char (y div 1000), digit_char (y div 100), digit_char (y div 10),
                digit_char y]
      in if pad_year then ds
         else if y < 10 then drop 3 ds
         else if y < 100 then drop 2 ds
         else if y < 1000 then drop 1 ds
         else ds)"

definition format_directive :: "bool \<Rightarrow> datetime \<Rightarrow> char \<Rightarrow> string" where
  "format_directive pad_year dt c =
     (if c = CHR ''Y'' then year_digits pad_year (year dt)
      else if c = CHR ''m'' then two_digits (month dt)
      else if c = CHR ''d'' then two_digits (day dt)
      else if c = CHR ''H'' then two_digits (hour dt)
      else if c = CHR ''M'' then two_digits (minute dt)
      else if c = CHR ''S'' then two_digits (second dt)
      else [CHR ''%'', c])"

fun strftime :: "bool \<Rightarrow> datetime \<Rightarrow> string \<Rightarrow> string" where
  "strftime pad_year dt [] = []"
| "strftime pad_year dt [c] = [c]"
| "strftime pad_year dt (c # d # cs) =
     (if c = CHR ''%'' then format_directive pad_year dt d @ strftime pad_year dt cs
      else c # strftime pad_year dt (d # cs))"


subsection \<open>The texts the date format matches\<close>





section \<open>The attribute model\<close>

text \<open>
  Modelled from the spec: \<^verbatim>\<open>dictmodel.py\<close>, which defines \<^verbatim>\<open>Attribute\<close> and
  \<^verbatim>\<open>AttributeModel\<close>, is not among the source files. The spec (3, 4.2, 9) gives them:
  an attribute descriptor is a source key and a converter, the source key defaulting to
  the field's declared name; a type definition is the ordered list of the descriptors;
  a subclass has its parent's descriptors, one it declares again replacing the parent's
  of that name, followed by the ones it adds.
\<close>

record descriptor =
  attr_name :: string
  source_key :: string
  convert :: converter

type_synonym type_definition = "descriptor list"

definition Attribute :: "string \<Rightarrow> converter \<Rightarrow> string option \<Rightarrow> descriptor" where
  "Attribute declared type' name =
     \<lparr>attr_name = declared,
      source_key = (case name of None \<Rightarrow> declared | Some k \<Rightarrow> k),
      convert = type'\<rparr>"

definition derive :: "type_definition \<Rightarrow> type_definition \<Rightarrow> type_definition" where
  "derive parent own =
     map (\<lambda>p. case find (\<lambda>c. attr_name c = attr_name p) own of Some c \<Rightarrow> c | None \<Rightarrow> p) parent
     @ filter (\<lambda>c. attr_name c \<notin> set (map attr_name parent)) own"

text \<open>
  Modelled from the spec: \<^verbatim>\<open>construct(type_definition, raw_object)\<close> of 4.2 and 7.
  For every descriptor in order: look the source key up in the raw object, a missing key
  is the missing-field condition naming the field; apply the converter, its failure is
  the condition carrying the field's name and the converter's error; the first failure
  ends the construction. With every field converted, the instance exposes each value
  under the field's declared name.
\<close>

fun construct :: "type_definition \<Rightarrow> (string \<times> raw) list \<Rightarrow> py_error + (string \<times> pyval) list" where
  "construct [] raw_object = Inr []"
| "construct (d # ds) raw_object =
     (case map_of raw_object (source_key d) of
        None \<Rightarrow> Inl (MissingField (attr_name d))
      | Some v \<Rightarrow>
          (case convert d v of
             Inl e \<Rightarrow> Inl (FieldError (attr_name d) e)
           | Inr x \<Rightarrow>
               (case construct ds raw_object of
                  Inl e \<Rightarrow> Inl e
                | Inr inst \<Rightarrow> Inr ((attr_name d, x) # inst))))"

text \<open>
  For stating what \<open>construct\<close> does: a field is in order when the raw object has its
  source key and its converter succeeds on the value; \<open>field_value\<close> is then the field's
  declared name with the converted value, and \<open>field_error\<close> is the condition a field
  that is not in order raises.
\<close>

definition field_ok :: "(string \<times> raw) list \<Rightarrow> descriptor \<Rightarrow> bool" where
  "field_ok raw_object d =
     (case map_of raw_object (source_key d) of
        None \<Rightarrow> False
      | Some v \<Rightarrow> (case convert d v of Inl e \<Rightarrow> False | Inr x \<Rightarrow> True))"

definition field_value :: "(string \<times> raw) list \<Rightarrow> descriptor \<Rightarrow> string \<times> pyval" where
  "field_value raw_object d =
     (attr_name d,
      case map_of raw_object (source_key d) of
        None \<Rightarrow> PNone
      | Some v \<Rightarrow> (case convert d v of Inl e \<Rightarrow> PNone | Inr x \<Rightarrow> x))"

definition field_error :: "(string \<times> raw) list \<Rightarrow> descriptor \<Rightarrow> py_error" where
  "field_error raw_object d =
     (case map_of raw_object (source_key d) of
        None \<Rightarrow> MissingField (attr_name d)
      | Some v \<Rightarrow>
          (case convert d v of
             Inl e \<Rightarrow> FieldError (attr_name d) e
           | Inr x \<Rightarrow> MissingField (attr_name d)))"

text \<open>
  A model class used as a converter (\<^verbatim>\<open>Attribute(MatchMetadata)\<close>,
  \<^verbatim>\<open>JsonList(TeamScore)\<close>) constructs an instance from a raw JSON object.
\<close>

definition model_call :: "type_definition \<Rightarrow> converter" where
  "model_call td v =
     (case v of
        JDict kvs \<Rightarrow> map_sum id PInstance (construct td kvs)
      | _ \<Rightarrow> Inl (ModelArgument v))"

subsection \<open>The domain models of model.py\<close>

text \<open>
  The class bodies of model.py, attribute by attribute in declaration order. The
  built-ins \<^verbatim>\<open>str\<close> and \<^verbatim>\<open>float\<close>, whose results are floating-point values and
  printed representations, are not modelled: the definitions take them as the
  parameters \<open>str'\<close> and \<open>float'\<close>.
\<close>

definition Score :: "converter \<Rightarrow> converter \<Rightarrow> type_definition" where
  "Score str' float' =
     [Attribute ''beatmap_id'' str' None,
      Attribute ''score'' int_conv None,
      Attribute ''maxcombo'' int_conv None,
      Attribute ''count50'' int_conv None,
      Attribute ''count100'' int_conv None,
      Attribute ''count300'' int_conv None,
      Attribute ''countmiss'' int_conv None,
      Attribute ''countkatu'' int_conv None,
      Attribute ''countgeki'' int_conv None,
      Attribute ''perfect'' bool_conv None,
      Attribute ''enabled_mods'' int_conv None,
      Attribute ''user_id'' int_conv None,
      Attribute ''date'' date_conv None,
      Attribute ''rank'' str' None,
      Attribute ''pp'' float' None]"

definition TeamScore_own :: type_definition where
  "TeamScore_own =
     [Attribute ''slot'' int_conv None,
      Attribute ''team'' int_conv None,
      Attribute ''passed'' bool_conv (Some ''pass'')]"

definition TeamScore :: "converter \<Rightarrow> converter \<Rightarrow> type_definition" where
  "TeamScore str' float' = derive (Score str' float') TeamScore_own"

definition User :: "converter \<Rightarrow> converter \<Rightarrow> type_definition" where
  "User str' float' =
     [Attribute ''user_id'' int_conv None,
      Attribute ''username'' str' None,
      Attribute ''count300'' int_conv None,
      Attribute ''count100'' int_conv None,
      Attribute ''count50'' int_conv None,
      Attribute ''playcount'' int_conv None,
      Attribute ''ranked_score'' int_conv None,
      Attribute ''total_score'' int_conv None,
      Attribute ''pp_rank'' int_conv None,
      Attribute ''level'' float' None,
      Attribute ''pp_raw'' float' None,
      Attribute ''accuracy'' float' None,
      Attribute ''count_rank_ss'' int_conv None,
      Attribute ''count_rank_s'' int_conv None,
      Attribute ''count_rank_a'' int_conv None,
      Attribute ''country'' str' None,
      Attribute ''pp_country_rank'' int_conv None,
      Attribute ''events'' (JsonList str') None]"

definition Beatmap :: "converter \<Rightarrow> converter \<Rightarrow> type_definition" where
  "Beatmap str' float' =
     [Attribute ''approved'' (PreProcessInt BeatmapStatus_call) None,
      Attribute ''approved_date'' (Nullable date_conv) None,
      Attribute ''last_update'' date_conv None,
      Attribute ''artist'' str' None,
      Attribute ''beatmap_id'' int_conv None,
      Attribute ''beatmapset_id'' int_conv None,
      Attribute ''bpm'' float' None,
      Attribute ''creator'' str' None,
      Attribute ''difficultyrating'' float' None,
      Attribute ''diff_size'' float' None,
      Attribute ''diff_overall'' float' None,
      Attribute ''diff_approach'' float' None,
      Attribute ''diff_drain'' float' None,
      Attribute ''hit_length'' int_conv None,
      Attribute ''source'' str' None,
      Attribute ''genre_id'' (PreProcessInt BeatmapGenre_call) None,
      Attribute ''language_id'' (PreProcessInt BeatmapLanguage_call) None,
      Attribute ''title'' str' None,
      Attribute ''total_length'' int_conv None,
      Attribute ''version'' str' None,
      Attribute ''file_md5'' str' None,
      Attribute ''mode'' (PreProcessInt OsuMode_call) None,
      Attribute ''tags'' str' None,
      Attribute ''favourite_count'' int_conv None,
      Attribute ''playcount'' int_conv None,
      Attribute ''passcount'' int_conv None,
      Attribute ''max_combo'' (Nullable int_conv) None]"

definition MatchMetadata :: "converter \<Rightarrow> type_definition" where
  "MatchMetadata str' =
     [Attribute ''match_id'' int_conv None,
      Attribute ''name'' str' None,
      Attribute ''start_time'' date_conv None,
      Attribute ''end_time'' (Nullable date_conv) None]"

definition Game :: "converter \<Rightarrow> converter \<Rightarrow> type_definition" where
  "Game str' float' =
     [Attribute ''game_id'' int_conv None,
      Attribute ''start_time'' date_conv None,
      Attribute ''end_time'' date_conv None,
      Attribute ''beatmap_id'' int_conv None,
      Attribute ''play_mode'' (PreProcessInt OsuMode_call) None,
      Attribute ''match_type'' str' None,
      Attribute ''scoring_type'' int_conv None,
      Attribute ''team_type'' int_conv None,
      Attribute ''mods'' int_conv None,
      Attribute ''scores'' (JsonList (model_call (TeamScore str' float'))) None]"

definition Match :: "converter \<Rightarrow> converter \<Rightarrow> type_definition" where
  "Match str' float' =
     [Attribute ''match'' (model_call (MatchMetadata str')) None,
      Attribute ''games'' (JsonList (model_call (Game str' float'))) None]"

subsection \<open>Names and their lookup\<close>

text \<open>
  The names bound in the namespace of the module \<^verbatim>\<open>osuapi.model\<close> once it has run:
  the module attributes every module has, what it imports, and what it defines, in
  order. The built-in names are those of the \<^verbatim>\<open>builtins\<close> module's functions, types
  and constants.
\<close>

definition model_module_names :: "string list" where
  "model_module_names =
     [''__name__'', ''__doc__'', ''__package__'', ''__loader__'', ''__spec__'', ''__file__'',
      ''__cached__'', ''__builtins__'',
      ''datetime'', ''Enum'', ''AttributeModel'', ''Attribute'',
      ''JsonList'', ''Nullable'', ''PreProcessInt'', ''DateConverter'', ''OsuMode'', ''Score'',
      ''TeamScore'', ''User'', ''BeatmapStatus'', ''BeatmapGenre'', ''BeatmapLanguage'',
      ''Beatmap'', ''MatchMetadata'', ''Game'', ''Match'']"

definition builtin_names :: "string list" where
  "builtin_names =
     [''abs'', ''aiter'', ''all'', ''anext'', ''any'', ''ascii'', ''bin'', ''bool'',
      ''breakpoint'', ''bytearray'', ''bytes'', ''callable'', ''chr'', ''classmethod'',
      ''compile'', ''complex'', ''copyright'', ''credits'', ''delattr'', ''dict'', ''dir'',
      ''divmod'', ''enumerate'', ''eval'', ''exec'', ''exit'', ''filter'', ''float'',
      ''format'', ''frozenset'', ''getattr'', ''globals'', ''hasattr'', ''hash'', ''help'',
      ''hex'', ''id'', ''input'', ''int'', ''isinstance'', ''issubclass'', ''iter'', ''len'',
      ''license'', ''list'', ''locals'', ''map'', ''max'', ''memoryview'', ''min'', ''next'',
      ''object'', ''oct'', ''open'', ''ord'', ''pow'', ''print'', ''property'', ''quit'',
      ''range'', ''repr'', ''reversed'', ''round'', ''set'', ''setattr'', ''slice'',
      ''sorted'', ''staticmethod'', ''str'', ''sum'', ''super'', ''tuple'', ''type'', ''vars'',
      ''zip'', ''__import__'', ''__build_class__'', ''__debug__'', ''__doc__'',
      ''__loader__'', ''__name__'', ''__package__'', ''__spec__'',
      ''None'', ''True'', ''False'', ''Ellipsis'', ''NotImplemented'',
      ''BaseException'', ''BaseExceptionGroup'', ''Exception'', ''ExceptionGroup'',
      ''GeneratorExit'', ''KeyboardInterrupt'', ''SystemExit'', ''ArithmeticError'',
      ''AssertionError'', ''AttributeError'', ''BlockingIOError'', ''BrokenPipeError'',
      ''BufferError'', ''BytesWarning'', ''ChildProcessError'', ''ConnectionAbortedError'',
      ''ConnectionError'', ''ConnectionRefusedError'', ''ConnectionResetError'',
      ''DeprecationWarning'', ''EOFError'', ''EncodingWarning'', ''EnvironmentError'',
      ''FileExistsError'', ''FileNotFoundError'', ''FloatingPointError'', ''FutureWarning'',
      ''IOError'', ''ImportError'', ''ImportWarning'', ''IndentationError'', ''IndexError'',
      ''InterruptedError'', ''IsADirectoryError'', ''KeyError'', ''LookupError'',
      ''MemoryError'', ''ModuleNotFoundError'', ''NameError'', ''NotADirectoryError'',
      ''NotImplementedError'', ''OSError'', ''OverflowError'', ''PendingDeprecationWarning'',
      ''PermissionError'', ''ProcessLookupError'', ''RecursionError'', ''ReferenceError'',
      ''ResourceWarning'', ''RuntimeError'', ''RuntimeWarning'', ''StopAsyncIteration'',
      ''StopIteration'', ''SyntaxError'', ''SyntaxWarning'', ''SystemError'', ''TabError'',
      ''TimeoutError'', ''TypeError'', ''UnboundLocalError'', ''UnicodeDecodeError'',
      ''UnicodeEncodeError'', ''UnicodeError'', ''UnicodeTranslateError'', ''UnicodeWarning'',
      ''UserWarning'', ''ValueError'', ''Warning'', ''ZeroDivisionError'']"

text \<open>
  A name that a function body reads and does not bind is looked up in the globals of the
  function's module and then among the built-ins; found in neither, it is a NameError.
\<close>

datatype binding = Global string | Builtin string

definition load_global :: "string list \<Rightarrow> string \<Rightarrow> py_error + binding" where
  "load_global module_globals name =
     (if name \<in> set module_globals then Inr (Global name)
      else if name \<in> set builtin_names then Inr (Builtin name)
      else Inl (NameNotDefined name))"

text \<open>
  \<^verbatim>\<open>
  class User(AttributeModel):
      ...
      def __str__(self):
          return username
  \<close>
  The body binds only \<^verbatim>\<open>self\<close>, so \<^verbatim>\<open>username\<close> is read as a global of the module.
  The result is the object the name is bound to.
\<close>

definition User_str :: "(string \<times> pyval) list \<Rightarrow> py_error + binding" where
  "User_str self = load_global model_module_names ''username''"

section \<open>The client: osu.py\<close>

text \<open>
  \<^verbatim>\<open>from module import a, b, ...\<close> binds the names in order and raises ImportError at the
  first one the module does not have.
\<close>

fun import_from :: "string \<Rightarrow> string list \<Rightarrow> string list \<Rightarrow> py_error + string list" where
  "import_from module_name module_names [] = Inr []"
| "import_from module_name module_names (n # ns) =
     (if n \<in> set module_names then
        (case import_from module_name module_names ns of
           Inl e \<Rightarrow> Inl e
         | Inr bound \<Rightarrow> Inr (n # bound))
      else Inl (CannotImportName n module_name))"

text \<open>
  Running the module osu.py: its first statement is
  \<^verbatim>\<open>from .model import User, SoloScore, JsonList, OsuMode, Beatmap, Match\<close>; the
  statements after it bind \<^verbatim>\<open>endpoints\<close>, the names of \<^verbatim>\<open>connectors\<close> (not among the
  source files, taken as \<open>connector_names\<close>), \<^verbatim>\<open>warnings\<close> and the class
  \<^verbatim>\<open>OsuApi\<close>. The result is the module's globals.
\<close>

definition osu_module :: "string list \<Rightarrow> py_error + string list" where
  "osu_module connector_names =
     (case import_from ''osuapi.model'' model_module_names
             [''User'', ''SoloScore'', ''JsonList'', ''OsuMode'', ''Beatmap'', ''Match''] of
        Inl e \<Rightarrow> Inl e
      | Inr bound \<Rightarrow> Inr (bound @ [''endpoints''] @ connector_names @ [''warnings'', ''OsuApi'']))"

text \<open>
  A request as the connector receives it: the endpoint, the parameters and the converter
  for the decoded response. The endpoints are the attributes of the module
  \<^verbatim>\<open>endpoints\<close>, and the converter is written as the expression that builds it.
  \<^verbatim>\<open>
  def _make_req(self, endpoint, data, type_):
      return self.connector.process_request(
          endpoint, {k: v for k, v in data.items() if v is not None}, type_)
  \<close>
  The connector is not among the source files; \<open>process_request\<close> is a parameter. A
  \<^verbatim>\<open>dict\<close> keeps its keys in insertion order, so the parameters are a list of pairs.
\<close>

datatype endpoint = USER | USER_BEST | USER_RECENT | SCORES | BEATMAPS | MATCH

datatype type_expr = ModelClass string | JsonListOf type_expr

definition make_req ::
  "(endpoint \<Rightarrow> (string \<times> raw) list \<Rightarrow> type_expr \<Rightarrow> 'r) \<Rightarrow>
   endpoint \<Rightarrow> (string \<times> raw) list \<Rightarrow> type_expr \<Rightarrow> 'r" where
  "make_req process_request endpoint data type' =
     process_request endpoint (filter (\<lambda>(k, v). v \<noteq> JNull) data) type'"

text \<open>
  \<^verbatim>\<open>
  def _username_type(username):
      if username is None:
          return None
      return "int" if isinstance(username, int) else "string"
  \<close>
  A \<^verbatim>\<open>bool\<close> is an instance of \<^verbatim>\<open>int\<close>.
\<close>

fun username_type :: "raw \<Rightarrow> raw" where
  "username_type JNull = JNull"
| "username_type (JInt n) = JStr ''int''"
| "username_type (JBool b) = JStr ''int''"
| "username_type (JFloat f) = JStr ''string''"
| "username_type (JStr s) = JStr ''string''"
| "username_type (JList xs) = JStr ''string''"
| "username_type (JDict kvs) = JStr ''string''"

text \<open>
  Reading the attribute \<^verbatim>\<open>value\<close> of the argument \<^verbatim>\<open>mods\<close>: \<open>None\<close> is Python's
  \<^verbatim>\<open>None\<close>, which has no such attribute; \<open>Some v\<close> is an object whose \<^verbatim>\<open>value\<close> is
  \<open>v\<close> (the docstring's \<^verbatim>\<open>OsuMod\<close>, a class no source file defines).
\<close>

definition value_of :: "raw option \<Rightarrow> py_error + raw" where
  "value_of obj =
     (case obj of None \<Rightarrow> Inl (NoAttribute ''NoneType'' ''value'') | Some v \<Rightarrow> Inr v)"

text \<open>
  Reading global names in order: the first one that is neither a global of the module nor
  a built-in raises NameError.
\<close>

fun load_globals :: "string list \<Rightarrow> string list \<Rightarrow> py_error + unit" where
  "load_globals module_globals [] = Inr ()"
| "load_globals module_globals (n # ns) =
     (case load_global module_globals n of
        Inl e \<Rightarrow> Inl e
      | Inr b \<Rightarrow> load_globals module_globals ns)"

text \<open>
  The resource methods, as functions of the globals of the module osu.py. A method body
  is one call of \<^verbatim>\<open>self._make_req\<close> whose arguments are evaluated from left to right
  before \<^verbatim>\<open>_make_req\<close> runs, so an exception in one of them leaves no request: first
  the global \<^verbatim>\<open>endpoints\<close>, then \<^verbatim>\<open>dict\<close> and its keyword arguments, then the
  globals of the converter expression. \<^verbatim>\<open>mode\<close> is a member of \<^verbatim>\<open>OsuMode\<close>.
\<close>

definition get_user ::
  "string list \<Rightarrow> (endpoint \<Rightarrow> (string \<times> raw) list \<Rightarrow> type_expr \<Rightarrow> 'r) \<Rightarrow>
   raw \<Rightarrow> raw \<Rightarrow> OsuMode \<Rightarrow> py_error + 'r" where
  "get_user module_globals process_request key username mode =
     py_bind (load_globals module_globals [''endpoints'', ''dict'', ''JsonList'', ''User''])
       (\<lambda>_. Inr (make_req process_request USER
          [(''k'', key), (''u'', username), (''type'', username_type username),
           (''m'', JInt (OsuMode_value mode))]
          (JsonListOf (ModelClass ''User''))))"

text \<open>
  \<^verbatim>\<open>
  def get_user_best(self, username, *, mode=OsuMode.osu, limit=50):
      return self._make_req(endpoints.USER_BEST, dict(
          k=self.key, u=username, type=self._username_type(username),
          m=mode.value, limit=limit), JsonList(SoloScore))
  \<close>
\<close>

definition get_user_best ::
  "string list \<Rightarrow> (endpoint \<Rightarrow> (string \<times> raw) list \<Rightarrow> type_expr \<Rightarrow> 'r) \<Rightarrow>
   raw \<Rightarrow> raw \<Rightarrow> OsuMode \<Rightarrow> raw \<Rightarrow> py_error + 'r" where
  "get_user_best module_globals process_request key username mode limit =
     py_bind (load_globals module_globals [''endpoints'', ''dict'', ''JsonList'', ''SoloScore''])
       (\<lambda>_. Inr (make_req process_request USER_BEST
          [(''k'', key), (''u'', username), (''type'', username_type username),
           (''m'', JInt (OsuMode_value mode)), (''limit'', limit)]
          (JsonListOf (ModelClass ''SoloScore''))))"

definition get_user_recent ::
  "string list \<Rightarrow> (endpoint \<Rightarrow> (string \<times> raw) list \<Rightarrow> type_expr \<Rightarrow> 'r) \<Rightarrow>
   raw \<Rightarrow> raw \<Rightarrow> OsuMode \<Rightarrow> raw \<Rightarrow> py_error + 'r" where
  "get_user_recent module_globals process_request key username mode limit =
     py_bind (load_globals module_globals [''endpoints'', ''dict'', ''JsonList'', ''Score''])
       (\<lambda>_. Inr (make_req process_request USER_RECENT
          [(''k'', key), (''u'', username), (''type'', username_type username),
           (''m'', JInt (OsuMode_value mode)), (''limit'', limit)]
          (JsonListOf (ModelClass ''Score''))))"

text \<open>
  \<^verbatim>\<open>
  def get_scores(self, beatmap_id, *, username=None, mode=OsuMode.osu, mods=None, limit=50):
      return self._make_req(endpoints.SCORES, dict(
          k=self.key, b=beatmap_id, u=username, type=self._username_type(username),
          m=mode.value, mods=mods.value, limit=limit), JsonList(Score))
  \<close>
  \<^verbatim>\<open>mods.value\<close> is evaluated among the keyword arguments, before the converter
  expression \<^verbatim>\<open>JsonList(Score)\<close>.
\<close>

definition get_scores ::
  "string list \<Rightarrow> (endpoint \<Rightarrow> (string \<times> raw) list \<Rightarrow> type_expr \<Rightarrow> 'r) \<Rightarrow>
   raw \<Rightarrow> raw \<Rightarrow> raw \<Rightarrow> OsuMode \<Rightarrow> raw option \<Rightarrow> raw \<Rightarrow> py_error + 'r" where
  "get_scores module_globals process_request key beatmap_id username mode mods limit =
     py_bind (load_globals module_globals [''endpoints'', ''dict'']) (\<lambda>_.
     py_bind (value_of mods) (\<lambda>mods_value.
     py_bind (load_globals module_globals [''JsonList'', ''Score'']) (\<lambda>_.
       Inr (make_req process_request SCORES
              [(''k'', key), (''b'', beatmap_id), (''u'', username),
               (''type'', username_type username), (''m'', JInt (OsuMode_value mode)),
               (''mods'', mods_value), (''limit'', limit)]
              (JsonListOf (ModelClass ''Score''))))))"

text \<open>
  \<^verbatim>\<open>get_beatmaps\<close> sends
  \<^verbatim>\<open>since="{:%Y-%m-%d %H:%M:%S}".format(since) if since is not None else None\<close>;
  formatting a \<^verbatim>\<open>datetime\<close> with a format specification is \<^verbatim>\<open>strftime\<close>.
\<close>

definition since_param :: "bool \<Rightarrow> datetime option \<Rightarrow> raw" where
  "since_param pad_year since =
     (case since of
        Some dt \<Rightarrow> JStr (strftime pad_year dt ''%Y-%m-%d %H:%M:%S'')
      | None \<Rightarrow> JNull)"

definition get_beatmaps ::
  "string list \<Rightarrow> bool \<Rightarrow> (endpoint \<Rightarrow> (string \<times> raw) list \<Rightarrow> type_expr \<Rightarrow> 'r) \<Rightarrow>
   raw \<Rightarrow> datetime option \<Rightarrow> raw \<Rightarrow> raw \<Rightarrow> raw \<Rightarrow> OsuMode \<Rightarrow> raw \<Rightarrow> raw \<Rightarrow> raw \<Rightarrow>
   py_error + 'r" where
  "get_beatmaps module_globals pad_year process_request key since beatmapset_id beatmap_id
       username mode include_converted beatmap_hash limit =
     py_bind (load_globals module_globals [''endpoints'', ''dict'', ''JsonList'', ''Beatmap''])
       (\<lambda>_. Inr (make_req process_request BEATMAPS
          [(''k'', key), (''s'', beatmapset_id), (''b'', beatmap_id), (''u'', username),
           (''since'', since_param pad_year since), (''type'', username_type username),
           (''m'', JInt (OsuMode_value mode)), (''a'', include_converted),
           (''h'', beatmap_hash), (''limit'', limit)]
          (JsonListOf (ModelClass ''Beatmap''))))"

definition get_match ::
  "string list \<Rightarrow> (endpoint \<Rightarrow> (string \<times> raw) list \<Rightarrow> type_expr \<Rightarrow> 'r) \<Rightarrow>
   raw \<Rightarrow> raw \<Rightarrow> py_error + 'r" where
  "get_match module_globals process_request key match_id =
     py_bind (load_globals module_globals [''endpoints'', ''dict'', ''Match''])
       (\<lambda>_. Inr (make_req process_request MATCH [(''k'', key), (''mp'', match_id)]
          (ModelClass ''Match'')))"

text \<open>
  Calling a method of the class \<^verbatim>\<open>OsuApi\<close>: the class exists only when the module has
  run to its end, and the method then runs with the module's globals.
\<close>

definition call_method :: "string list \<Rightarrow> (string list \<Rightarrow> py_error + 'r) \<Rightarrow> py_error + 'r" where
  "call_method connector_names method =
     (case osu_module connector_names of
        Inl e \<Rightarrow> Inl e
      | Inr module_globals \<Rightarrow> method module_globals)"

definition call_get_user_best ::
  "string list \<Rightarrow> (endpoint \<Rightarrow> (string \<times> raw) list \<Rightarrow> type_expr \<Rightarrow> 'r) \<Rightarrow>
   raw \<Rightarrow> raw \<Rightarrow> OsuMode \<Rightarrow> raw \<Rightarrow> py_error + 'r" where
  "call_get_user_best connector_names process_request key username mode limit =
     call_method connector_names
       (\<lambda>module_globals. get_user_best module_globals process_request key username mode limit)"

definition call_get_scores ::
  "string list \<Rightarrow> (endpoint \<Rightarrow> (string \<times> raw) list \<Rightarrow> type_expr \<Rightarrow> 'r) \<Rightarrow>
   raw \<Rightarrow> raw \<Rightarrow> raw \<Rightarrow> OsuMode \<Rightarrow> raw option \<Rightarrow> raw \<Rightarrow> py_error + 'r" where
  "call_get_scores connector_names process_request key beatmap_id username mode mods limit =
     call_method connector_names
       (\<lambda>module_globals.
          get_scores module_globals process_request key beatmap_id username mode mods limit)"

text \<open>
  The globals the module osu.py would have were all its statements to succeed, that is,
  were \<^verbatim>\<open>SoloScore\<close> importable: the six imported names, \<^verbatim>\<open>endpoints\<close>, the names of
  \<^verbatim>\<open>connectors\<close>, \<^verbatim>\<open>warnings\<close> and \<^verbatim>\<open>OsuApi\<close>.
\<close>

definition osu_globals_if_imported :: "string list \<Rightarrow> string list" where
  "osu_globals_if_imported connector_names =
     [''User'', ''SoloScore'', ''JsonList'', ''OsuMode'', ''Beatmap'', ''Match'', ''endpoints'']
     @ connector_names @ [''warnings'', ''OsuApi'']"

section \<open>Properties\<close>

subsection \<open>Enumerations\<close>

lemma Enum_call_member:
  assumes "m \<in> set members" and "inj_on val (set members)"
  shows "Enum_call cls members val wrap (JInt (val m)) = Inr (wrap m)"
proof -
  have "find (\<lambda>x. val x = val m) members = Some m"
    using assms
  proof (induction members)
    case Nil
    then show ?case by simp
  next
    case (Cons a as)
    show ?case
    proof (cases "val a = val m")
      case True
      with Cons.prems have "a = m" by (auto dest: inj_onD)
      then show ?thesis by simp
    next
      case False
      with Cons.prems have "m \<in> set as" and "inj_on val (set as)" by auto
      with Cons.IH False show ?thesis by simp
    qed
  qed
  moreover have "(\<lambda>x. raw_eq_int (JInt (val m)) (val x)) = (\<lambda>x. val x = val m)"
    by auto
  ultimately show ?thesis by (simp add: Enum_call_def)
qed

lemma Enum_call_unknown:
  assumes "k \<notin> val ` set members"
  shows "Enum_call cls members val wrap (JInt k) = Inl (NotAValidMember (JInt k) cls)"
proof -
  have "find (\<lambda>m. raw_eq_int (JInt k) (val m)) members = None"
    using assms by (auto simp: find_None_iff)
  then show ?thesis by (simp add: Enum_call_def)
qed

lemma OsuMode_members_all: "m \<in> set OsuMode_members"
  by (cases m) (simp_all add: OsuMode_members_def)

lemma OsuMode_value_inj: "inj_on OsuMode_value A"
proof (rule inj_onI)
  fix a b
  assume "OsuMode_value a = OsuMode_value b"
  then show "a = b" by (cases a; cases b) simp_all
qed

lemma OsuMode_call_member: "OsuMode_call (JInt (OsuMode_value m)) = Inr (POsuMode m)"
  unfolding OsuMode_call_def
  by (rule Enum_call_member [OF OsuMode_members_all OsuMode_value_inj])

lemma BeatmapStatus_members_all: "m \<in> set BeatmapStatus_members"
  by (cases m) (simp_all add: BeatmapStatus_members_def)

lemma BeatmapStatus_value_inj: "inj_on BeatmapStatus_value A"
proof (rule inj_onI)
  fix a b
  assume "BeatmapStatus_value a = BeatmapStatus_value b"
  then show "a = b" by (cases a; cases b) simp_all
qed

lemma BeatmapStatus_call_member: "BeatmapStatus_call (JInt (BeatmapStatus_value m)) = Inr (PBeatmapStatus m)"
  unfolding BeatmapStatus_call_def
  by (rule Enum_call_member [OF BeatmapStatus_members_all BeatmapStatus_value_inj])

lemma BeatmapGenre_members_all: "m \<in> set BeatmapGenre_members"
  by (cases m) (simp_all add: BeatmapGenre_members_def)

lemma BeatmapGenre_value_inj: "inj_on BeatmapGenre_value A"
proof (rule inj_onI)
  fix a b
  assume "BeatmapGenre_value a = BeatmapGenre_value b"
  then show "a = b" by (cases a; cases b) simp_all
qed

lemma BeatmapGenre_call_member: "BeatmapGenre_call (JInt (BeatmapGenre_value m)) = Inr (PBeatmapGenre m)"
  unfolding BeatmapGenre_call_def
  by (rule Enum_call_member [OF BeatmapGenre_members_all BeatmapGenre_value_inj])

lemma BeatmapLanguage_members_all: "m \<in> set BeatmapLanguage_members"
  by (cases m) (simp_all add: BeatmapLanguage_members_def)

lemma BeatmapLanguage_value_inj: "inj_on BeatmapLanguage_value A"
proof (rule inj_onI)
  fix a b
  assume "BeatmapLanguage_value a = BeatmapLanguage_value b"
  then show "a = b" by (cases a; cases b) simp_all
qed

lemma BeatmapLanguage_call_member: "BeatmapLanguage_call (JInt (BeatmapLanguage_value m)) = Inr (PBeatmapLanguage m)"
  unfolding BeatmapLanguage_call_def
  by (rule Enum_call_member [OF BeatmapLanguage_members_all BeatmapLanguage_value_inj])

lemma OsuMode_call_unknown:
  "k \<notin> {0..3} \<Longrightarrow> OsuMode_call (JInt k) = Inl (NotAValidMember (JInt k) ''OsuMode'')"
  unfolding OsuMode_call_def
  by (rule Enum_call_unknown) (auto simp: OsuMode_members_def)

lemma BeatmapStatus_call_unknown:
  "k \<notin> {- 2..3} \<Longrightarrow>
   BeatmapStatus_call (JInt k) = Inl (NotAValidMember (JInt k) ''BeatmapStatus'')"
  unfolding BeatmapStatus_call_def
  by (rule Enum_call_unknown) (auto simp: BeatmapStatus_members_def)

lemma BeatmapGenre_call_unknown:
  "k \<notin> {0..7} \<union> {9, 10} \<Longrightarrow>
   BeatmapGenre_call (JInt k) = Inl (NotAValidMember (JInt k) ''BeatmapGenre'')"
  unfolding BeatmapGenre_call_def
  by (rule Enum_call_unknown) (auto simp: BeatmapGenre_members_def)

lemma BeatmapLanguage_call_unknown:
  "k \<notin> {0..11} \<Longrightarrow>
   BeatmapLanguage_call (JInt k) = Inl (NotAValidMember (JInt k) ''BeatmapLanguage'')"
  unfolding BeatmapLanguage_call_def
  by (rule Enum_call_unknown) (auto simp: BeatmapLanguage_members_def)

lemma OsuMode_table:
  "map (\<lambda>m. (OsuMode_value m, OsuMode_name m)) OsuMode_members =
     [(0, ''osu''), (1, ''taiko''), (2, ''ctb''), (3, ''mania'')]"
  by (simp add: OsuMode_members_def)

lemma BeatmapStatus_table:
  "map (\<lambda>m. (BeatmapStatus_value m, BeatmapStatus_name m)) BeatmapStatus_members =
     [(- 2, ''graveyard''), (- 1, ''wip''), (0, ''pending''), (1, ''ranked''),
      (2, ''approved''), (3, ''qualified'')]"
  by (simp add: BeatmapStatus_members_def)

lemma BeatmapGenre_table:
  "map (\<lambda>m. (BeatmapGenre_value m, BeatmapGenre_name m)) BeatmapGenre_members =
     [(0, ''any''), (1, ''unspecified''), (2, ''video_game''), (3, ''anime''), (4, ''rock''),
      (5, ''pop''), (6, ''other''), (7, ''novelty''), (9, ''hip_hop''), (10, ''electronic'')]"
  by (simp add: BeatmapGenre_members_def)

lemma BeatmapLanguage_table:
  "map (\<lambda>m. (BeatmapLanguage_value m, BeatmapLanguage_name m)) BeatmapLanguage_members =
     [(0, ''any''), (1, ''other''), (2, ''english''), (3, ''japanese''), (4, ''chinese''),
      (5, ''instrumental''), (6, ''korean''), (7, ''french''), (8, ''german''),
      (9, ''swedish''), (10, ''spanish''), (11, ''italian'')]"
  by (simp add: BeatmapLanguage_members_def)

text \<open>
  Claim C1. The four enumerations carry exactly the wire codes: game mode 0..3
  (osu, taiko, ctb, mania), beatmap status -2..3 (1 is ranked), genre 0..10 without 8,
  language 0..11. Calling the class with the code of a member returns that member, and
  calling it with any integer outside the declared codes (beatmap status 99, genre 8)
  raises the ValueError "is not a valid member": no default member is substituted.
\<close>

theorem enum_wire_codes:
  "map (\<lambda>m. (OsuMode_value m, OsuMode_name m)) OsuMode_members =
     [(0, ''osu''), (1, ''taiko''), (2, ''ctb''), (3, ''mania'')]
   \<and> map (\<lambda>m. (BeatmapStatus_value m, BeatmapStatus_name m)) BeatmapStatus_members =
     [(- 2, ''graveyard''), (- 1, ''wip''), (0, ''pending''), (1, ''ranked''),
      (2, ''approved''), (3, ''qualified'')]
   \<and> map (\<lambda>m. (BeatmapGenre_value m, BeatmapGenre_name m)) BeatmapGenre_members =
     [(0, ''any''), (1, ''unspecified''), (2, ''video_game''), (3, ''anime''), (4, ''rock''),
      (5, ''pop''), (6, ''other''), (7, ''novelty''), (9, ''hip_hop''), (10, ''electronic'')]
   \<and> map (\<lambda>m. (BeatmapLanguage_value m, BeatmapLanguage_name m)) BeatmapLanguage_members =
     [(0, ''any''), (1, ''other''), (2, ''english''), (3, ''japanese''), (4, ''chinese''),
      (5, ''instrumental''), (6, ''korean''), (7, ''french''), (8, ''german''),
      (9, ''swedish''), (10, ''spanish''), (11, ''italian'')]
   \<and> (\<forall>m. m \<in> set OsuMode_members \<and> OsuMode_call (JInt (OsuMode_value m)) = Inr (POsuMode m))
   \<and> (\<forall>m. m \<in> set BeatmapStatus_members
          \<and> BeatmapStatus_call (JInt (BeatmapStatus_value m)) = Inr (PBeatmapStatus m))
   \<and> (\<forall>m. m \<in> set BeatmapGenre_members
          \<and> BeatmapGenre_call (JInt (BeatmapGenre_value m)) = Inr (PBeatmapGenre m))
   \<and> (\<forall>m. m \<in> set BeatmapLanguage_members
          \<and> BeatmapLanguage_call (JInt (BeatmapLanguage_value m)) = Inr (PBeatmapLanguage m))
   \<and> (\<forall>k. k \<notin> {0..3} \<longrightarrow>
          OsuMode_call (JInt k) = Inl (NotAValidMember (JInt k) ''OsuMode''))
   \<and> (\<forall>k. k \<notin> {- 2..3} \<longrightarrow>
          BeatmapStatus_call (JInt k) = Inl (NotAValidMember (JInt k) ''BeatmapStatus''))
   \<and> (\<forall>k. k \<notin> {0..7} \<union> {9, 10} \<longrightarrow>
          BeatmapGenre_call (JInt k) = Inl (NotAValidMember (JInt k) ''BeatmapGenre''))
   \<and> (\<forall>k. k \<notin> {0..11} \<longrightarrow>
          BeatmapLanguage_call (JInt k) = Inl (NotAValidMember (JInt k) ''BeatmapLanguage''))"
  by (intro conjI allI impI OsuMode_table BeatmapStatus_table BeatmapGenre_table
      BeatmapLanguage_table OsuMode_members_all BeatmapStatus_members_all
      BeatmapGenre_members_all BeatmapLanguage_members_all OsuMode_call_member
      BeatmapStatus_call_member BeatmapGenre_call_member BeatmapLanguage_call_member
      OsuMode_call_unknown BeatmapStatus_call_unknown BeatmapGenre_call_unknown
      BeatmapLanguage_call_unknown)

theorem enum_wire_codes_witness:
  "BeatmapStatus_call (JInt 1) = Inr (PBeatmapStatus BeatmapStatus_ranked)
   \<and> BeatmapStatus_call (JInt 99) = Inl (NotAValidMember (JInt 99) ''BeatmapStatus'')
   \<and> BeatmapGenre_call (JInt 8) = Inl (NotAValidMember (JInt 8) ''BeatmapGenre'')
   \<and> OsuMode_call (JInt 4) = Inl (NotAValidMember (JInt 4) ''OsuMode'')
   \<and> BeatmapLanguage_call (JInt (- 1)) = Inl (NotAValidMember (JInt (- 1)) ''BeatmapLanguage'')"
proof -
  have member: "BeatmapStatus_call (JInt (BeatmapStatus_value m)) = Inr (PBeatmapStatus m)" for m
    using enum_wire_codes by blast
  have status: "k \<notin> {- 2..3} \<Longrightarrow>
      BeatmapStatus_call (JInt k) = Inl (NotAValidMember (JInt k) ''BeatmapStatus'')" for k
    using enum_wire_codes by blast
  have genre: "k \<notin> {0..7} \<union> {9, 10} \<Longrightarrow>
      BeatmapGenre_call (JInt k) = Inl (NotAValidMember (JInt k) ''BeatmapGenre'')" for k
    using enum_wire_codes by blast
  have mode: "k \<notin> {0..3} \<Longrightarrow>
      OsuMode_call (JInt k) = Inl (NotAValidMember (JInt k) ''OsuMode'')" for k
    using enum_wire_codes by blast
  have language: "k \<notin> {0..11} \<Longrightarrow>
      BeatmapLanguage_call (JInt k) = Inl (NotAValidMember (JInt k) ''BeatmapLanguage'')" for k
    using enum_wire_codes by blast
  show ?thesis
    using member [of BeatmapStatus_ranked] status [of 99] genre [of 8] mode [of 4]
      language [of "- 1"]
    by simp
qed

subsection \<open>Nullable and JsonList\<close>

text \<open>
  Claim C3. For every converter \<open>T\<close>, \<open>Nullable T\<close> maps the null sentinel to the absent
  marker whatever \<open>T\<close> is (so also for a \<open>T\<close> that fails on every input: \<open>T\<close> is not
  consulted), and on every other input it is \<open>T\<close>: the same value, or the same failure.
\<close>

theorem Nullable_null_or_delegate:
  "Nullable T JNull = Inr PNone \<and> (it \<noteq> JNull \<longrightarrow> Nullable T it = T it)"
  by (simp add: Nullable_def)

theorem Nullable_null_or_delegate_witness:
  "Nullable (\<lambda>v. Inl (IntArgument v)) JNull = Inr PNone
   \<and> Nullable int_conv (JStr ''5'') = Inr (PInt 5)
   \<and> Nullable int_conv (JStr ''x'') = Inl (InvalidLiteral ''x'')"
proof -
  have ok: "int_conv (JStr ''5'') = Inr (PInt 5)"
    by code_simp
  have bad: "int_conv (JStr ''x'') = Inl (InvalidLiteral ''x'')"
    by code_simp
  show ?thesis
    using Nullable_null_or_delegate [of "\<lambda>v. Inl (IntArgument v)" JNull]
      Nullable_null_or_delegate [of int_conv "JStr ''5''"]
      Nullable_null_or_delegate [of int_conv "JStr ''x''"] ok bad
    by simp
qed

lemma convert_each_Inr: "convert_each T xs = Inr ys \<longleftrightarrow> map T xs = map Inr ys"
proof (induction xs arbitrary: ys)
  case Nil
  then show ?case by auto
next
  case (Cons a as)
  show ?case
  proof (cases "T a")
    case (Inl e)
    then show ?thesis by (cases ys) auto
  next
    case (Inr y)
    show ?thesis
    proof (cases "convert_each T as")
      case (Inl e)
      have "map T as \<noteq> map Inr zs" for zs
        using Cons.IH[of zs] Inl by simp
      with Inl Inr show ?thesis by (cases ys) auto
    next
      case r: (Inr zs)
      with Cons.IH[of zs] have "map T as = map Inr zs" by simp
      with r Inr show ?thesis by (cases ys) (auto simp: inj_map_eq_map)
    qed
  qed
qed

lemma convert_each_Inl:
  "convert_each T xs = Inl e \<longleftrightarrow>
     (\<exists>pre x post ys. xs = pre @ x # post \<and> map T pre = map Inr ys \<and> T x = Inl e)"
proof (induction xs)
  case Nil
  then show ?case by simp
next
  case (Cons a as)
  show ?case
  proof (cases "T a")
    case (Inl e')
    have "(\<exists>pre x post ys. a # as = pre @ x # post \<and> map T pre = map Inr ys \<and> T x = Inl e)
          \<longleftrightarrow> e' = e"
    proof
      assume "\<exists>pre x post ys. a # as = pre @ x # post \<and> map T pre = map Inr ys \<and> T x = Inl e"
      then obtain pre x post ys
        where h: "a # as = pre @ x # post" "map T pre = map Inr ys" "T x = Inl e"
        by blast
      show "e' = e"
      proof (cases pre)
        case Nil
        with h Inl show ?thesis by simp
      next
        case (Cons p ps)
        with h Inl show ?thesis by auto
      qed
    next
      assume "e' = e"
      with Inl have "a # as = [] @ a # as \<and> map T [] = map Inr [] \<and> T a = Inl e"
        by simp
      then show "\<exists>pre x post ys. a # as = pre @ x # post \<and> map T pre = map Inr ys \<and> T x = Inl e"
        by blast
    qed
    with Inl show ?thesis by simp
  next
    case (Inr y)
    have "(\<exists>pre x post ys. a # as = pre @ x # post \<and> map T pre = map Inr ys \<and> T x = Inl e)
          \<longleftrightarrow> (\<exists>pre x post ys. as = pre @ x # post \<and> map T pre = map Inr ys \<and> T x = Inl e)"
    proof
      assume "\<exists>pre x post ys. a # as = pre @ x # post \<and> map T pre = map Inr ys \<and> T x = Inl e"
      then obtain pre x post ys
        where h: "a # as = pre @ x # post" "map T pre = map Inr ys" "T x = Inl e"
        by blast
      show "\<exists>pre x post ys. as = pre @ x # post \<and> map T pre = map Inr ys \<and> T x = Inl e"
      proof (cases pre)
        case Nil
        with h Inr show ?thesis by simp
      next
        case (Cons p ps)
        with h have "as = ps @ x # post" and "map T ps = map Inr (tl ys)"
          by (auto simp: map_tl[symmetric])
        with h(3) show ?thesis by blast
      qed
    next
      assume "\<exists>pre x post ys. as = pre @ x # post \<and> map T pre = map Inr ys \<and> T x = Inl e"
      then obtain pre x post ys
        where h: "as = pre @ x # post" "map T pre = map Inr ys" "T x = Inl e"
        by blast
      with Inr have "a # as = (a # pre) @ x # post \<and> map T (a # pre) = map Inr (y # ys)
          \<and> T x = Inl e"
        by simp
      then show "\<exists>pre x post ys. a # as = pre @ x # post \<and> map T pre = map Inr ys \<and> T x = Inl e"
        by blast
    qed
    moreover have "convert_each T (a # as) = Inl e \<longleftrightarrow> convert_each T as = Inl e"
      using Inr by (simp split: sum.splits)
    ultimately show ?thesis using Cons.IH by simp
  qed
qed

lemma JsonList_Inr:
  "JsonList T (JList xs) = Inr v \<longleftrightarrow> (\<exists>ys. v = PList ys \<and> map T xs = map Inr ys)"
  by (cases "convert_each T xs") (auto simp: JsonList_def convert_each_Inr[symmetric])

lemma JsonList_Inl: "JsonList T (JList xs) = Inl e \<longleftrightarrow> convert_each T xs = Inl e"
  by (cases "convert_each T xs") (auto simp: JsonList_def)

text \<open>
  Claim C4. For every converter \<open>T\<close> and raw array \<open>[a1, ..., an]\<close>: \<open>JsonList T\<close> returns
  a value exactly when \<open>T\<close> succeeds on every element, and the value is then the list
  \<open>[T a1, ..., T an]\<close>, of the same length and in the same order; it fails exactly when
  \<open>T\<close> fails on some element, with the error of the first such element, and then no list,
  partial or otherwise, is returned.
\<close>

theorem JsonList_maps_in_order:
  "(JsonList T (JList xs) = Inr v \<longleftrightarrow> (\<exists>ys. v = PList ys \<and> map T xs = map Inr ys))
   \<and> (JsonList T (JList xs) = Inl e \<longleftrightarrow>
        (\<exists>pre x post ys. xs = pre @ x # post \<and> map T pre = map Inr ys \<and> T x = Inl e))"
  by (simp only: JsonList_Inr JsonList_Inl convert_each_Inl)

theorem JsonList_maps_in_order_witness:
  "JsonList int_conv (JList [JStr ''3'', JInt 1, JStr ''2'']) = Inr (PList [PInt 3, PInt 1, PInt 2])
   \<and> JsonList int_conv (JList [JStr ''3'', JNull, JStr ''x'']) = Inl (IntArgument JNull)"
proof -
  have a: "map int_conv [JStr ''3'', JInt 1, JStr ''2''] = map Inr [PInt 3, PInt 1, PInt 2]"
    by code_simp
  have b: "[JStr ''3'', JNull, JStr ''x''] = [JStr ''3''] @ JNull # [JStr ''x'']
      \<and> map int_conv [JStr ''3''] = map Inr [PInt 3] \<and> int_conv JNull = Inl (IntArgument JNull)"
    by code_simp
  from a have "JsonList int_conv (JList [JStr ''3'', JInt 1, JStr ''2''])
      = Inr (PList [PInt 3, PInt 1, PInt 2])"
    using JsonList_maps_in_order [of int_conv "[JStr ''3'', JInt 1, JStr ''2'']"
        "PList [PInt 3, PInt 1, PInt 2]"]
    by blast
  moreover from b have "JsonList int_conv (JList [JStr ''3'', JNull, JStr ''x''])
      = Inl (IntArgument JNull)"
    using JsonList_maps_in_order [of int_conv "[JStr ''3'', JNull, JStr ''x'']" _
        "IntArgument JNull"]
    by blast
  ultimately show ?thesis by simp
qed

subsection \<open>PreProcessInt\<close>















lemma PreProcessInt_Inl: "py_int it = Inl e \<Longrightarrow> PreProcessInt T it = Inl e"
  by (simp add: PreProcessInt_def)





subsection \<open>The requests of osu.py\<close>

text \<open>
  What \<^verbatim>\<open>_make_req\<close> hands to the connector holds no parameter whose value is
  \<^verbatim>\<open>None\<close>, and every other parameter in its order.
\<close>

lemma make_req_sends_no_null:
  "make_req process_request endpoint data type' = process_request endpoint sent type'
   \<and> sent = filter (\<lambda>(k, v). v \<noteq> JNull) data \<and> JNull \<notin> snd ` set sent"
  if "sent = filter (\<lambda>(k, v). v \<noteq> JNull) data"
  using that by (auto simp: make_req_def)

lemma SoloScore_not_in_model: "''SoloScore'' \<notin> set model_module_names"
  by (simp add: model_module_names_def)

lemma osu_module_fails:
  "osu_module connector_names = Inl (CannotImportName ''SoloScore'' ''osuapi.model'')"
  by (simp add: osu_module_def model_module_names_def)

lemma call_method_fails:
  "call_method connector_names method = Inl (CannotImportName ''SoloScore'' ''osuapi.model'')"
  by (simp add: call_method_def osu_module_fails)

declare load_globals.simps(2) [simp del]

lemma load_globals_found:
  "n \<in> set module_globals \<or> n \<in> set builtin_names \<Longrightarrow>
   load_globals module_globals (n # ns) = load_globals module_globals ns"
  by (auto simp: load_global_def load_globals.simps(2))

lemma load_globals_missing:
  "n \<notin> set module_globals \<Longrightarrow> n \<notin> set builtin_names \<Longrightarrow>
   load_globals module_globals (n # ns) = Inl (NameNotDefined n)"
  by (simp add: load_global_def load_globals.simps(2))

lemma endpoints_imported: "''endpoints'' \<in> set (osu_globals_if_imported connector_names)"
  and JsonList_imported: "''JsonList'' \<in> set (osu_globals_if_imported connector_names)"
  and Beatmap_imported: "''Beatmap'' \<in> set (osu_globals_if_imported connector_names)"
  by (simp_all add: osu_globals_if_imported_def)

lemma dict_builtin: "''dict'' \<in> set builtin_names"
  by (simp add: builtin_names_def)

lemma Score_not_builtin: "''Score'' \<notin> set builtin_names"
  by (simp add: builtin_names_def)

lemma Score_imported_iff:
  "''Score'' \<in> set (osu_globals_if_imported connector_names) \<longleftrightarrow> ''Score'' \<in> set connector_names"
  by (simp add: osu_globals_if_imported_def)

lemma load_endpoints_dict:
  "load_globals (osu_globals_if_imported connector_names) (''endpoints'' # ''dict'' # ns)
     = load_globals (osu_globals_if_imported connector_names) ns"
  by (simp only: load_globals_found endpoints_imported dict_builtin simp_thms)

text \<open>
  Claim C8 at \<^verbatim>\<open>get_scores\<close> with its defaults (\<^verbatim>\<open>username=None\<close>,
  \<^verbatim>\<open>mods=None\<close>). In the program the call cannot be made: the import that opens osu.py
  raises ImportError, so the class does not exist. With the globals the module would have
  were \<^verbatim>\<open>SoloScore\<close> importable, the body raises AttributeError when it evaluates
  \<^verbatim>\<open>mods.value\<close>, before any request is built, whatever the connector's names, the
  key and the beatmap id are.
\<close>

theorem get_scores_defaults_raise:
  "call_get_scores connector_names process_request key beatmap_id JNull OsuMode_osu None
       (JInt 50)
     = Inl (CannotImportName ''SoloScore'' ''osuapi.model'')
   \<and> get_scores (osu_globals_if_imported connector_names) process_request key beatmap_id JNull
       OsuMode_osu None (JInt 50)
     = Inl (NoAttribute ''NoneType'' ''value'')"
  by (simp add: call_get_scores_def call_method_fails get_scores_def load_endpoints_dict
      value_of_def py_bind_def)

text \<open>
  With a \<^verbatim>\<open>mods\<close> object the body goes on to the converter \<^verbatim>\<open>JsonList(Score)\<close>:
  osu.py does not import \<^verbatim>\<open>Score\<close>, so unless \<^verbatim>\<open>connectors\<close> exports that name the
  body raises NameError; if it does, the request omits the absent \<^verbatim>\<open>username\<close> and its
  type tag. \<^verbatim>\<open>get_beatmaps\<close> with its defaults sends only what is not \<^verbatim>\<open>None\<close>.
\<close>

lemma get_scores_with_mods_no_Score:
  "''Score'' \<notin> set connector_names \<Longrightarrow>
   get_scores (osu_globals_if_imported connector_names) process_request key beatmap_id username
       mode (Some mv) limit
     = Inl (NameNotDefined ''Score'')"
  by (simp add: get_scores_def load_endpoints_dict value_of_def py_bind_def
      load_globals_found JsonList_imported load_globals_missing Score_imported_iff
      Score_not_builtin)

lemma get_scores_with_mods:
  "''Score'' \<in> set connector_names \<Longrightarrow> key \<noteq> JNull \<Longrightarrow> beatmap_id \<noteq> JNull \<Longrightarrow>
   mv \<noteq> JNull \<Longrightarrow>
   get_scores (osu_globals_if_imported connector_names) process_request key beatmap_id JNull
       OsuMode_osu (Some mv) (JInt 50)
     = Inr (process_request SCORES
         [(''k'', key), (''b'', beatmap_id), (''m'', JInt 0), (''mods'', mv), (''limit'', JInt 50)]
         (JsonListOf (ModelClass ''Score'')))"
  by (simp add: get_scores_def load_endpoints_dict value_of_def py_bind_def
      load_globals_found JsonList_imported Score_imported_iff make_req_def)

lemma get_beatmaps_defaults:
  "key \<noteq> JNull \<Longrightarrow>
   get_beatmaps (osu_globals_if_imported connector_names) pad_year process_request key None
       JNull JNull JNull OsuMode_osu (JBool False) JNull (JInt 500)
     = Inr (process_request BEATMAPS
         [(''k'', key), (''m'', JInt 0), (''a'', JBool False), (''limit'', JInt 500)]
         (JsonListOf (ModelClass ''Beatmap'')))"
  by (simp add: get_beatmaps_def load_endpoints_dict py_bind_def load_globals_found
      JsonList_imported Beatmap_imported make_req_def since_param_def)

text \<open>
  Claim C9. The module model.py binds no name \<^verbatim>\<open>SoloScore\<close>, so the import that
  opens osu.py raises ImportError, the class \<^verbatim>\<open>OsuApi\<close> never comes to exist, and a
  call of \<^verbatim>\<open>get_user_best\<close> fails for every connector, key, user name, mode and limit.
\<close>

theorem get_user_best_never_succeeds:
  "''SoloScore'' \<notin> set model_module_names
   \<and> osu_module connector_names = Inl (CannotImportName ''SoloScore'' ''osuapi.model'')
   \<and> call_get_user_best connector_names process_request key username mode limit
       = Inl (CannotImportName ''SoloScore'' ''osuapi.model'')"
  by (simp add: call_get_user_best_def call_method_fails osu_module_fails
      SoloScore_not_in_model)

text \<open>
  Claim C10. For every instance, \<^verbatim>\<open>User.__str__\<close> raises NameError: \<^verbatim>\<open>username\<close>
  is neither a global of the module nor a built-in. It returns nothing, so never the
  user's name.
\<close>

theorem User_str_raises:
  "User_str self = Inl (NameNotDefined ''username'')"
  by (simp add: User_str_def load_global_def model_module_names_def builtin_names_def)

subsection \<open>The construction protocol\<close>

lemma construct_all_ok:
  "list_all (field_ok raw_object) td \<Longrightarrow>
   construct td raw_object = Inr (map (field_value raw_object) td)"
  by (induction td)
     (auto simp: field_ok_def field_value_def split: option.splits sum.splits)

lemma construct_first_failure:
  "list_all (field_ok raw_object) pre \<Longrightarrow> \<not> field_ok raw_object d \<Longrightarrow>
   construct (pre @ d # post) raw_object = Inl (field_error raw_object d)"
  by (induction pre)
     (auto simp: field_ok_def field_error_def split: option.splits sum.splits)

lemma split_first_failure:
  "\<not> list_all P xs \<Longrightarrow> \<exists>pre x post. xs = pre @ x # post \<and> list_all P pre \<and> \<not> P x"
proof (induction xs)
  case Nil
  then show ?case by simp
next
  case (Cons a as)
  show ?case
  proof (cases "P a")
    case True
    with Cons obtain pre x post where "as = pre @ x # post" "list_all P pre" "\<not> P x"
      by auto
    with True have "a # as = (a # pre) @ x # post \<and> list_all P (a # pre) \<and> \<not> P x"
      by simp
    then show ?thesis by blast
  next
    case False
    then have "a # as = [] @ a # as \<and> list_all P [] \<and> \<not> P a" by simp
    then show ?thesis by blast
  qed
qed

text \<open>
  Claim C2, as amended. Whenever the raw object lacks the source key of a declared
  attribute, or holds a value on which the attribute's converter fails, \<open>construct\<close>
  fails: nothing is defaulted. The failure is that of the first declared attribute, in
  declaration order, which is not in order: the missing-field condition naming it when
  its key is absent, the condition with its name and the converter's error when its
  converter fails; and every failure of \<open>construct\<close> is one of these two.
\<close>

theorem construct_fails_at_first_bad_field:
  "((\<exists>d \<in> set td. map_of raw_object (source_key d) = None
       \<or> (\<exists>v e. map_of raw_object (source_key d) = Some v \<and> convert d v = Inl e))
     \<longrightarrow> (\<exists>e. construct td raw_object = Inl e))
   \<and> (td = pre @ d # post \<and> list_all (field_ok raw_object) pre
        \<and> map_of raw_object (source_key d) = None
      \<longrightarrow> construct td raw_object = Inl (MissingField (attr_name d)))
   \<and> (td = pre @ d # post \<and> list_all (field_ok raw_object) pre
        \<and> map_of raw_object (source_key d) = Some v \<and> convert d v = Inl e
      \<longrightarrow> construct td raw_object = Inl (FieldError (attr_name d) e))
   \<and> (construct td raw_object = Inl err \<longrightarrow>
        (\<exists>pre d post. td = pre @ d # post \<and> list_all (field_ok raw_object) pre
           \<and> ((map_of raw_object (source_key d) = None \<and> err = MissingField (attr_name d))
              \<or> (\<exists>v e. map_of raw_object (source_key d) = Some v \<and> convert d v = Inl e
                    \<and> err = FieldError (attr_name d) e))))"
proof (intro conjI impI)
  assume "\<exists>d \<in> set td. map_of raw_object (source_key d) = None
       \<or> (\<exists>v e. map_of raw_object (source_key d) = Some v \<and> convert d v = Inl e)"
  then obtain d where "d \<in> set td" and "\<not> field_ok raw_object d"
    by (auto simp: field_ok_def)
  then have "\<not> list_all (field_ok raw_object) td"
    by (auto simp: list_all_iff)
  then obtain pre x post where "td = pre @ x # post" "list_all (field_ok raw_object) pre"
      "\<not> field_ok raw_object x"
    using split_first_failure by blast
  then show "\<exists>e. construct td raw_object = Inl e"
    using construct_first_failure by blast
next
  assume "td = pre @ d # post \<and> list_all (field_ok raw_object) pre
        \<and> map_of raw_object (source_key d) = None"
  then show "construct td raw_object = Inl (MissingField (attr_name d))"
    using construct_first_failure [of raw_object pre d post]
    by (simp add: field_ok_def field_error_def)
next
  assume "td = pre @ d # post \<and> list_all (field_ok raw_object) pre
        \<and> map_of raw_object (source_key d) = Some v \<and> convert d v = Inl e"
  then show "construct td raw_object = Inl (FieldError (attr_name d) e)"
    using construct_first_failure [of raw_object pre d post]
    by (simp add: field_ok_def field_error_def)
next
  assume failed: "construct td raw_object = Inl err"
  then have "\<not> list_all (field_ok raw_object) td"
    using construct_all_ok [of raw_object td] by auto
  then obtain pre x post where split: "td = pre @ x # post"
      "list_all (field_ok raw_object) pre" "\<not> field_ok raw_object x"
    using split_first_failure by blast
  with failed construct_first_failure [of raw_object pre x post]
  have err: "err = field_error raw_object x" by simp
  from split(3) err
  have "(map_of raw_object (source_key x) = None \<and> err = MissingField (attr_name x))
      \<or> (\<exists>v e. map_of raw_object (source_key x) = Some v \<and> convert x v = Inl e
            \<and> err = FieldError (attr_name x) e)"
    by (auto simp: field_ok_def field_error_def split: option.splits sum.splits)
  with split(1,2) show "\<exists>pre d post. td = pre @ d # post \<and> list_all (field_ok raw_object) pre
           \<and> ((map_of raw_object (source_key d) = None \<and> err = MissingField (attr_name d))
              \<or> (\<exists>v e. map_of raw_object (source_key d) = Some v \<and> convert d v = Inl e
                    \<and> err = FieldError (attr_name d) e))"
    by blast
qed

text \<open>
  Claim C2 as stated fails where two fields are at fault: with the attributes \<open>a\<close> and
  \<open>b\<close>, a raw object that lacks \<open>b\<close> and holds a malformed \<open>a\<close> does not raise the
  missing-field condition of \<open>b\<close>, and one that lacks \<open>a\<close> and holds a malformed \<open>b\<close>
  does not raise the conversion error of \<open>b\<close>. The first failure is the one reported.
\<close>

theorem construct_error_names_other_field:
  "map_of [(''a'', JStr ''x'')] (source_key (Attribute ''b'' int_conv None)) = None
   \<and> construct [Attribute ''a'' int_conv None, Attribute ''b'' int_conv None]
        [(''a'', JStr ''x'')]
       = Inl (FieldError ''a'' (InvalidLiteral ''x''))
   \<and> map_of [(''b'', JStr ''x'')] (source_key (Attribute ''b'' int_conv None)) = Some (JStr ''x'')
   \<and> convert (Attribute ''b'' int_conv None) (JStr ''x'') = Inl (InvalidLiteral ''x'')
   \<and> construct [Attribute ''a'' int_conv None, Attribute ''b'' int_conv None]
        [(''b'', JStr ''x'')]
       = Inl (MissingField ''a'')"
  by code_simp

theorem construct_fails_at_first_bad_field_witness:
  "construct [Attribute ''a'' int_conv None, Attribute ''b'' int_conv None]
      [(''a'', JStr ''1'')] = Inl (MissingField ''b'')
   \<and> construct [Attribute ''a'' int_conv None, Attribute ''b'' int_conv None]
      [(''a'', JStr ''1''), (''b'', JStr ''x'')] = Inl (FieldError ''b'' (InvalidLiteral ''x''))"
proof -
  let ?a = "Attribute ''a'' int_conv None"
  let ?b = "Attribute ''b'' int_conv None"
  have split: "[?a, ?b] = [?a] @ ?b # []" by simp
  have ok1: "list_all (field_ok [(''a'', JStr ''1'')]) [?a]"
    by code_simp
  have ok2: "list_all (field_ok [(''a'', JStr ''1''), (''b'', JStr ''x'')]) [?a]"
    by code_simp
  have missing: "map_of [(''a'', JStr ''1'')] (source_key ?b) = None"
    by code_simp
  have present: "map_of [(''a'', JStr ''1''), (''b'', JStr ''x'')] (source_key ?b)
      = Some (JStr ''x'')"
    by code_simp
  have bad: "convert ?b (JStr ''x'') = Inl (InvalidLiteral ''x'')"
    by code_simp
  have name: "attr_name ?b = ''b''"
    by (simp add: Attribute_def)
  note inst = construct_fails_at_first_bad_field [where td = "[?a, ?b]" and pre = "[?a]"
      and d = ?b and post = "[]" and v = "JStr ''x''" and e = "InvalidLiteral ''x''"
      and err = "MissingField ''b''"]
  have "construct [?a, ?b] [(''a'', JStr ''1'')] = Inl (MissingField (attr_name ?b))"
    using inst [where raw_object = "[(''a'', JStr ''1'')]"] split ok1 missing
    by (elim conjE) simp
  moreover have "construct [?a, ?b] [(''a'', JStr ''1''), (''b'', JStr ''x'')]
      = Inl (FieldError (attr_name ?b) (InvalidLiteral ''x''))"
    using inst [where raw_object = "[(''a'', JStr ''1''), (''b'', JStr ''x'')]"] split ok2
      present bad
    by (elim conjE) simp
  ultimately show ?thesis by (simp only: name)
qed

subsection \<open>TeamScore\<close>

lemma construct_Inr_all_ok:
  assumes "construct td raw_object = Inr inst"
  shows "list_all (field_ok raw_object) td" and "inst = map (field_value raw_object) td"
proof -
  show ok: "list_all (field_ok raw_object) td"
  proof (rule ccontr)
    assume "\<not> list_all (field_ok raw_object) td"
    then obtain pre x post where "td = pre @ x # post" "list_all (field_ok raw_object) pre"
        "\<not> field_ok raw_object x"
      using split_first_failure by blast
    with construct_first_failure [of raw_object pre x post] assms show False by simp
  qed
  with construct_all_ok [of raw_object td] assms
  show "inst = map (field_value raw_object) td" by simp
qed

lemma map_of_field_values:
  assumes "distinct (map attr_name td)" and "d \<in> set td"
  shows "map_of (map (field_value raw_object) td) (attr_name d)
           = Some (snd (field_value raw_object d))"
  using assms
  by (induction td) (auto simp: field_value_def image_iff)

lemma construct_exposes_fields:
  assumes "construct td raw_object = Inr inst" and "distinct (map attr_name td)"
    and "d \<in> set td"
  shows "\<exists>v x. map_of raw_object (source_key d) = Some v \<and> convert d v = Inr x
           \<and> map_of inst (attr_name d) = Some x"
proof -
  from construct_Inr_all_ok [OF assms(1)]
  have ok: "list_all (field_ok raw_object) td" and inst: "inst = map (field_value raw_object) td"
    by simp_all
  from ok assms(3) have "field_ok raw_object d" by (simp add: list_all_iff)
  then obtain v x where vx: "map_of raw_object (source_key d) = Some v" "convert d v = Inr x"
    by (auto simp: field_ok_def split: option.splits sum.splits)
  then have "snd (field_value raw_object d) = x" by (simp add: field_value_def)
  with map_of_field_values [OF assms(2,3), of raw_object] inst vx show ?thesis by simp
qed

lemma TeamScore_unfold: "TeamScore str' float' = Score str' float' @ TeamScore_own"
  by (simp add: TeamScore_def derive_def Score_def TeamScore_own_def Attribute_def)

lemma TeamScore_names:
  "map attr_name (TeamScore str' float') =
     [''beatmap_id'', ''score'', ''maxcombo'', ''count50'', ''count100'', ''count300'',
      ''countmiss'', ''countkatu'', ''countgeki'', ''perfect'', ''enabled_mods'', ''user_id'',
      ''date'', ''rank'', ''pp'', ''slot'', ''team'', ''passed'']"
  by (simp add: TeamScore_unfold Score_def TeamScore_own_def Attribute_def)

lemma TeamScore_keys:
  "map source_key (TeamScore str' float') =
     [''beatmap_id'', ''score'', ''maxcombo'', ''count50'', ''count100'', ''count300'',
      ''countmiss'', ''countkatu'', ''countgeki'', ''perfect'', ''enabled_mods'', ''user_id'',
      ''date'', ''rank'', ''pp'', ''slot'', ''team'', ''pass'']"
  by (simp add: TeamScore_unfold Score_def TeamScore_own_def Attribute_def)

lemma TeamScore_distinct: "distinct (map attr_name (TeamScore str' float'))"
  by (simp add: TeamScore_names)

lemma passed_in_TeamScore: "Attribute ''passed'' bool_conv (Some ''pass'') \<in> set (TeamScore str' float')"
  by (simp add: TeamScore_unfold TeamScore_own_def)

text \<open>
  Claim C7. \<open>TeamScore\<close> is \<open>Score\<close>, every field with its source key and converter
  unchanged and in order, followed by the three fields \<open>slot\<close>, \<open>team\<close> and \<open>passed\<close>,
  the last read from the JSON key \<open>pass\<close>. A raw object in which every field is in
  order constructs an instance, and an instance constructed from a raw object exposes
  all eighteen attributes under their declared names, each with its converter's value of
  the raw field, \<open>passed\<close> with the truth value of the raw \<open>pass\<close>.
\<close>

theorem TeamScore_extends_Score:
  "TeamScore str' float' =
     Score str' float'
     @ [Attribute ''slot'' int_conv None, Attribute ''team'' int_conv None,
        Attribute ''passed'' bool_conv (Some ''pass'')]
   \<and> map attr_name (TeamScore str' float') =
     [''beatmap_id'', ''score'', ''maxcombo'', ''count50'', ''count100'', ''count300'',
      ''countmiss'', ''countkatu'', ''countgeki'', ''perfect'', ''enabled_mods'', ''user_id'',
      ''date'', ''rank'', ''pp'', ''slot'', ''team'', ''passed'']
   \<and> map source_key (TeamScore str' float') =
     [''beatmap_id'', ''score'', ''maxcombo'', ''count50'', ''count100'', ''count300'',
      ''countmiss'', ''countkatu'', ''countgeki'', ''perfect'', ''enabled_mods'', ''user_id'',
      ''date'', ''rank'', ''pp'', ''slot'', ''team'', ''pass'']
   \<and> (list_all (field_ok raw_object) (TeamScore str' float') \<longrightarrow>
        (\<exists>inst. construct (TeamScore str' float') raw_object = Inr inst))
   \<and> (construct (TeamScore str' float') raw_object = Inr inst \<longrightarrow>
        map fst inst = map attr_name (TeamScore str' float')
        \<and> (\<forall>d \<in> set (TeamScore str' float').
              \<exists>v x. map_of raw_object (source_key d) = Some v \<and> convert d v = Inr x
                \<and> map_of inst (attr_name d) = Some x)
        \<and> (\<exists>v. map_of raw_object ''pass'' = Some v
              \<and> map_of inst ''passed'' = Some (PBool (py_bool v))))"
proof (intro conjI impI ballI)
  show "TeamScore str' float' =
     Score str' float'
     @ [Attribute ''slot'' int_conv None, Attribute ''team'' int_conv None,
        Attribute ''passed'' bool_conv (Some ''pass'')]"
    by (simp add: TeamScore_unfold TeamScore_own_def)
  show "map attr_name (TeamScore str' float') =
     [''beatmap_id'', ''score'', ''maxcombo'', ''count50'', ''count100'', ''count300'',
      ''countmiss'', ''countkatu'', ''countgeki'', ''perfect'', ''enabled_mods'', ''user_id'',
      ''date'', ''rank'', ''pp'', ''slot'', ''team'', ''passed'']"
    by (rule TeamScore_names)
  show "map source_key (TeamScore str' float') =
     [''beatmap_id'', ''score'', ''maxcombo'', ''count50'', ''count100'', ''count300'',
      ''countmiss'', ''countkatu'', ''countgeki'', ''perfect'', ''enabled_mods'', ''user_id'',
      ''date'', ''rank'', ''pp'', ''slot'', ''team'', ''pass'']"
    by (rule TeamScore_keys)
  show "\<exists>inst. construct (TeamScore str' float') raw_object = Inr inst"
    if "list_all (field_ok raw_object) (TeamScore str' float')"
    using construct_all_ok [OF that] by blast
next
  assume c: "construct (TeamScore str' float') raw_object = Inr inst"
  from construct_Inr_all_ok(2) [OF c]
  show "map fst inst = map attr_name (TeamScore str' float')"
    by (simp add: field_value_def comp_def)
  show "\<exists>v x. map_of raw_object (source_key d) = Some v \<and> convert d v = Inr x
        \<and> map_of inst (attr_name d) = Some x"
    if "d \<in> set (TeamScore str' float')" for d
    using construct_exposes_fields [OF c TeamScore_distinct that] .
  from construct_exposes_fields [OF c TeamScore_distinct passed_in_TeamScore]
  show "\<exists>v. map_of raw_object ''pass'' = Some v
      \<and> map_of inst ''passed'' = Some (PBool (py_bool v))"
    by (auto simp: Attribute_def bool_conv_def)
qed


theorem TeamScore_extends_Score_witness:
  "\<exists>inst.
     construct
       (TeamScore (\<lambda>v. Inr (PStr (case v of JStr s \<Rightarrow> s | _ \<Rightarrow> [])))
          (\<lambda>v. Inr (PStr (case v of JStr s \<Rightarrow> s | _ \<Rightarrow> []))))
       [(''beatmap_id'', JStr ''129891''), (''score'', JStr ''1000000''),
      (''maxcombo'', JStr ''2385''), (''count50'', JStr ''0''), (''count100'', JStr ''7''),
      (''count300'', JStr ''1978''), (''countmiss'', JStr ''0''), (''countkatu'', JStr ''7''),
      (''countgeki'', JStr ''247''), (''perfect'', JStr ''1''), (''enabled_mods'', JStr ''576''),
      (''user_id'', JStr ''124493''), (''date'', JStr ''2014-01-02 03:04:05''),
      (''rank'', JStr ''SH''), (''pp'', JStr ''817.9''), (''slot'', JStr ''0''),
      (''team'', JStr ''2''), (''pass'', JStr ''1'')] = Inr inst
     \<and> map fst inst =
       [''beatmap_id'', ''score'', ''maxcombo'', ''count50'', ''count100'', ''count300'',
        ''countmiss'', ''countkatu'', ''countgeki'', ''perfect'', ''enabled_mods'', ''user_id'',
        ''date'', ''rank'', ''pp'', ''slot'', ''team'', ''passed'']
     \<and> map_of inst ''passed'' = Some (PBool True)"
proof -
  let ?str = "\<lambda>v. Inr (PStr (case v of JStr s \<Rightarrow> s | _ \<Rightarrow> [])) :: py_error + pyval"
  let ?raw = "[(''beatmap_id'', JStr ''129891''), (''score'', JStr ''1000000''),
      (''maxcombo'', JStr ''2385''), (''count50'', JStr ''0''), (''count100'', JStr ''7''),
      (''count300'', JStr ''1978''), (''countmiss'', JStr ''0''), (''countkatu'', JStr ''7''),
      (''countgeki'', JStr ''247''), (''perfect'', JStr ''1''), (''enabled_mods'', JStr ''576''),
      (''user_id'', JStr ''124493''), (''date'', JStr ''2014-01-02 03:04:05''),
      (''rank'', JStr ''SH''), (''pp'', JStr ''817.9''), (''slot'', JStr ''0''),
      (''team'', JStr ''2''), (''pass'', JStr ''1'')]"
  have i1000000: "int_conv (JStr ''1000000'') = Inr (PInt 1000000)" by code_simp
  have i2385: "int_conv (JStr ''2385'') = Inr (PInt 2385)" by code_simp
  have i0: "int_conv (JStr ''0'') = Inr (PInt 0)" by code_simp
  have i7: "int_conv (JStr ''7'') = Inr (PInt 7)" by code_simp
  have i1978: "int_conv (JStr ''1978'') = Inr (PInt 1978)" by code_simp
  have i247: "int_conv (JStr ''247'') = Inr (PInt 247)" by code_simp
  have i576: "int_conv (JStr ''576'') = Inr (PInt 576)" by code_simp
  have i124493: "int_conv (JStr ''124493'') = Inr (PInt 124493)" by code_simp
  have i2: "int_conv (JStr ''2'') = Inr (PInt 2)" by code_simp
  have date: "date_conv (JStr ''2014-01-02 03:04:05'')
      = Inr (PDate \<lparr>year = 2014, month = 1, day = 2, hour = 3, minute = 4, second = 5,
               microsecond = 0\<rparr>)"
    by code_simp
  have ok: "list_all (field_ok ?raw) (TeamScore ?str ?str)"
    by (simp add: TeamScore_unfold Score_def TeamScore_own_def Attribute_def field_ok_def
        bool_conv_def date i1000000 i2385 i0 i7 i1978 i247 i576 i124493 i2)
  note inst = TeamScore_extends_Score [where str' = ?str and float' = ?str
      and raw_object = ?raw]
  from inst ok obtain inst where c: "construct (TeamScore ?str ?str) ?raw = Inr inst"
    by blast
  from inst [where inst = inst] c
  have names: "map fst inst = map attr_name (TeamScore ?str ?str)"
    and "\<exists>v. map_of ?raw ''pass'' = Some v \<and> map_of inst ''passed'' = Some (PBool (py_bool v))"
    by blast+
  then have passed: "map_of inst ''passed'' = Some (PBool True)"
    by simp
  note declared = inst [THEN conjunct2, THEN conjunct1]
  show ?thesis
  proof (intro exI conjI)
    show "construct (TeamScore ?str ?str) ?raw = Inr inst"
      by (rule c)
    show "map fst inst =
       [''beatmap_id'', ''score'', ''maxcombo'', ''count50'', ''count100'', ''count300'',
        ''countmiss'', ''countkatu'', ''countgeki'', ''perfect'', ''enabled_mods'', ''user_id'',
        ''date'', ''rank'', ''pp'', ''slot'', ''team'', ''passed'']"
      using names declared by (rule trans)
    show "map_of inst ''passed'' = Some (PBool True)"
      by (rule passed)
  qed
qed

section \<open>The date format\<close>

subsection \<open>Characters and the regular expressions of the directives\<close>


lemma digit_val_le: "is_digit c \<Longrightarrow> digit_val c \<le> 9"
  by (auto simp: is_digit_def digit_val_def Let_def)





lemma re_class_set: "(a, r) \<in> set (re_class P s) \<longleftrightarrow> (\<exists>c. a = [c] \<and> P c \<and> s = c # r)"
  by (cases s) (auto simp: re_class_def)















lemma match_directive:
  "match_token (Directive CHR ''Y'') = re_Y" "match_token (Directive CHR ''m'') = re_m"
  "match_token (Directive CHR ''d'') = re_d" "match_token (Directive CHR ''H'') = re_H"
  "match_token (Directive CHR ''M'') = re_M" "match_token (Directive CHR ''S'') = re_S"
  by (simp_all add: fun_eq_iff directive_regex_def)














declare match_tokens.simps [simp del]


lemma literal_set:
  "(a, r) \<in> set (match_token (Literal c) s) \<longleftrightarrow> a = [c] \<and> s = c # r"
  by (auto simp: re_class_set)







lemma py_bind_Inr [simp]: "py_bind (Inr x) f = f x"
  by (simp add: py_bind_def)
























lemma concat_one: "concat (map f [x]) = f x"
  by simp


























end
